theory Spec2Isabelle
  imports Main
begin

section \<open>The command-line front end of file-share-cli (src/cli.ts)\<close>

text \<open>
  The class \<open>Cli\<close> drives two interactive flows, \<open>handleFileUpload\<close> and
  \<open>handleFileDownload\<close>. Both read answers from the terminal, call the collaborators
  (\<open>GoogleDriveService\<close>, \<open>DBService\<close>, \<open>BCrypt\<close>, \<open>generateSharedKey\<close>) and report
  through the spinner, \<open>note\<close> and \<open>console.error\<close>.

  The embedding makes each of these explicit:
  \<^item> what the user types is a script of answers, consumed by the prompts;
  \<^item> what the flow shows and which collaborator it calls is a list of events, in order;
  \<^item> a rejected promise is the result \<open>Threw\<close>; a \<open>try\<close>/\<open>catch\<close> is \<open>tryCatch\<close>;
  \<^item> a prompt that waits for an answer the script does not hold is the result \<open>Blocked\<close>;
  \<^item> the collaborators are fields of a record of functions, since their modules are not
    part of \<open>cli.ts\<close>; the record store is a state of type \<open>'db\<close>.
\<close>

subsection \<open>Values\<close>

text \<open>One answer of the user at a prompt: a submitted line, or Ctrl-C.\<close>

datatype user_input = Submit string | Cancel

text \<open>
  What \<open>text\<close> of @clack/prompts resolves to: the submitted string, or the cancel symbol.
  The source casts it with \<open>as string\<close>, which changes nothing at run time.
\<close>

datatype prompt_value = Str string | CancelSymbol

text \<open>
  A thrown value. \<open>JsError m\<close> is \<open>new Error(m)\<close>; the other three are the error kinds
  the specification names for the hasher and the record store.
\<close>

datatype error = JsError string | InvalidInput | MalformedDigest | DuplicateKey

datatype 'a result = Value 'a | Threw error | Blocked

text \<open>
  The object \<open>uploadFile\<close> resolves to; the flow reads its \<open>id\<close> and casts it with
  \<open>as string\<close>, so the model takes it to be a string.
\<close>

datatype drive_file = DriveFile (file_id: string)

text \<open>The row \<open>getSecureFile\<close> resolves to; \<open>'h\<close> is the type of a stored digest.\<close>

record 'h secure_file =
  hashedPassCode :: 'h
  sharedKey :: string
  fileId :: string

text \<open>
  Events, in the order the flow produces them. The first six are what the person at the
  terminal sees; the \<open>Call\<close> events record a call of a collaborator with its arguments.
\<close>

datatype 'h event =
    Ask string
  | Invalid string
  | SpinStart string
  | SpinStop string
  | Note string string
  | ConsoleError string error
  | CallHash "string option"
  | CallUpload prompt_value
  | CallCreate 'h string string
  | CallGet prompt_value
  | CallCompare "string option" 'h
  | CallMetadata string
  | CallDownload string string

fun is_shown :: "'h event \<Rightarrow> bool" where
  "is_shown (Ask _) = True"
| "is_shown (Invalid _) = True"
| "is_shown (SpinStart _) = True"
| "is_shown (SpinStop _) = True"
| "is_shown (Note _ _) = True"
| "is_shown (ConsoleError _ _) = True"
| "is_shown _ = False"

definition shown :: "'h event list \<Rightarrow> 'h event list" where
  "shown es = filter is_shown es"

fun is_upload_call :: "'h event \<Rightarrow> bool" where
  "is_upload_call (CallUpload _) = True"
| "is_upload_call _ = False"

fun is_compare_call :: "'h event \<Rightarrow> bool" where
  "is_compare_call (CallCompare _ _) = True"
| "is_compare_call _ = False"

fun is_storage_call :: "'h event \<Rightarrow> bool" where
  "is_storage_call (CallMetadata _) = True"
| "is_storage_call (CallDownload _ _) = True"
| "is_storage_call _ = False"

fun is_create_call :: "'h event \<Rightarrow> bool" where
  "is_create_call (CallCreate _ _ _) = True"
| "is_create_call _ = False"

subsection \<open>The collaborators\<close>

text \<open>
  The fields of \<open>Cli\<close> and the functions it imports, as far as the two flows use them.
  A promise that rejects is \<open>Inl\<close>. \<open>generateSharedKey\<close> is the key the generator returns
  in this run. \<open>pathJoin\<close> and \<open>homedir\<close> are Node's \<open>path.join\<close> and \<open>os.homedir()\<close>.
\<close>

record ('h, 'db) services =
  existsSync :: "string \<Rightarrow> bool"
  homedir :: string
  pathJoin :: "string \<Rightarrow> string \<Rightarrow> string"
  generateSharedKey :: string
  hashPasscode :: "string option \<Rightarrow> error + 'h"
  comparePasscode :: "string option \<Rightarrow> 'h \<Rightarrow> error + bool"
  uploadFile :: "prompt_value \<Rightarrow> error + drive_file"
  getFileMetadata :: "string \<Rightarrow> error + string option"
  downloadFile :: "string \<Rightarrow> string \<Rightarrow> error + unit"
  createSecureFile :: "'db \<Rightarrow> 'h \<Rightarrow> string \<Rightarrow> string \<Rightarrow> error option \<times> 'db"
  getSecureFile :: "'db \<Rightarrow> prompt_value \<Rightarrow> error + 'h secure_file option"

subsection \<open>Sequencing\<close>

text \<open>The world a flow runs in: the answers not yet read, and the record store.\<close>

record 'db world =
  inputs :: "user_input list"
  db :: 'db

type_synonym ('a, 'h, 'db) io = "'db world \<Rightarrow> 'a result \<times> 'h event list \<times> 'db world"

definition emit :: "'h event \<Rightarrow> (unit, 'h, 'db) io" where
  "emit e w = (Value (), [e], w)"

definition throw :: "error \<Rightarrow> ('a, 'h, 'db) io" where
  "throw e w = (Threw e, [], w)"

text \<open>\<open>await\<close> of a collaborator's promise, the call recorded first.\<close>

definition call :: "'h event \<Rightarrow> error + 'a \<Rightarrow> ('a, 'h, 'db) io" where
  "call ev r w = (case r of Inl e \<Rightarrow> (Threw e, [ev], w) | Inr a \<Rightarrow> (Value a, [ev], w))"

text \<open>Statement sequencing: the rest runs only when the first part returned a value.\<close>

definition andThen :: "('a, 'h, 'db) io \<Rightarrow> ('a \<Rightarrow> ('b, 'h, 'db) io) \<Rightarrow> ('b, 'h, 'db) io" where
  "andThen m f w =
     (case m w of
        (Value a, es, w') \<Rightarrow> (case f a w' of (r, es', w'') \<Rightarrow> (r, es @ es', w''))
      | (Threw e, es, w') \<Rightarrow> (Threw e, es, w')
      | (Blocked, es, w') \<Rightarrow> (Blocked, es, w'))"

text \<open>\<open>try { m } catch (error) { h error }\<close>.\<close>

definition tryCatch :: "('a, 'h, 'db) io \<Rightarrow> (error \<Rightarrow> ('a, 'h, 'db) io) \<Rightarrow> ('a, 'h, 'db) io" where
  "tryCatch m h w =
     (case m w of
        (Threw e, es, w') \<Rightarrow> (case h e w' of (r, es', w'') \<Rightarrow> (r, es @ es', w''))
      | (Value a, es, w') \<Rightarrow> (Value a, es, w')
      | (Blocked, es, w') \<Rightarrow> (Blocked, es, w'))"

subsection \<open>Prompts\<close>

text \<open>
  \<open>text({message, validate})\<close>: the prompt stays open while \<open>validate\<close> returns a
  message for the submitted line, showing that message; it resolves to the first line
  that \<open>validate\<close> accepts, or to the cancel symbol.
\<close>

fun text_loop :: "(string \<Rightarrow> string option) \<Rightarrow> user_input list
    \<Rightarrow> prompt_value result \<times> 'h event list \<times> user_input list" where
  "text_loop validate [] = (Blocked, [], [])"
| "text_loop validate (Cancel # ins) = (Value CancelSymbol, [], ins)"
| "text_loop validate (Submit v # ins) =
     (case validate v of
        None \<Rightarrow> (Value (Str v), [], ins)
      | Some problem \<Rightarrow>
          (case text_loop validate ins of (r, es, ins') \<Rightarrow> (r, Invalid problem # es, ins')))"

definition text_prompt :: "string \<Rightarrow> (string \<Rightarrow> string option) \<Rightarrow> (prompt_value, 'h, 'db) io" where
  "text_prompt message validate w =
     (case text_loop validate (inputs w) of
        (r, es, ins') \<Rightarrow> (r, Ask message # es, w\<lparr>inputs := ins'\<rparr>))"

text \<open>
  \<open>askPassword\<close> (cli.ts 24-32): one \<open>prompts\<close> question of type \<open>invisible\<close>, without a
  \<open>validate\<close> option. It returns \<open>response.passcode\<close>: the submitted line, empty or not,
  or \<open>undefined\<close> (\<open>None\<close>) when the question was cancelled.
\<close>

definition askPassword :: "string \<Rightarrow> (string option, 'h, 'db) io" where
  "askPassword message w =
     (case inputs w of
        [] \<Rightarrow> (Blocked, [Ask message], w)
      | Submit v # ins \<Rightarrow> (Value (Some v), [Ask message], w\<lparr>inputs := ins\<rparr>)
      | Cancel # ins \<Rightarrow> (Value None, [Ask message], w\<lparr>inputs := ins\<rparr>))"

subsection \<open>The record store, as the flows reach it\<close>

definition db_createSecureFile :: "('h, 'db) services \<Rightarrow> 'h \<Rightarrow> string \<Rightarrow> string \<Rightarrow> (unit, 'h, 'db) io" where
  "db_createSecureFile sv h k f w =
     (case createSecureFile sv (db w) h k f of
        (None, d) \<Rightarrow> (Value (), [CallCreate h k f], w\<lparr>db := d\<rparr>)
      | (Some e, d) \<Rightarrow> (Threw e, [CallCreate h k f], w\<lparr>db := d\<rparr>))"

definition db_getSecureFile :: "('h, 'db) services \<Rightarrow> prompt_value \<Rightarrow> ('h secure_file option, 'h, 'db) io" where
  "db_getSecureFile sv k w = call (CallGet k) (getSecureFile sv (db w) k) w"

subsection \<open>The upload flow (cli.ts 34-76)\<close>

definition validate_filePath :: "('h, 'db) services \<Rightarrow> string \<Rightarrow> string option" where
  "validate_filePath sv v =
     (if v = [] then Some ''File path cannot be empty''
      else if \<not> existsSync sv v then Some ''File does not exist''
      else None)"

definition getFilePathAndPassCode :: "('h, 'db) services
    \<Rightarrow> (prompt_value \<times> string option \<times> string, 'h, 'db) io" where
  "getFilePathAndPassCode sv =
     andThen (text_prompt ''Please enter the file path:'' (validate_filePath sv)) (\<lambda>filePath.
     andThen (askPassword ''Set a passcode'') (\<lambda>passcode.
     andThen (emit (SpinStart ''Generating a shared key...'')) (\<lambda>_.
     andThen (emit (SpinStop (''Shared key: '' @ generateSharedKey sv))) (\<lambda>_.
     (\<lambda>w. (Value (filePath, passcode, generateSharedKey sv), [], w))))))"

definition handleFileUpload :: "('h, 'db) services \<Rightarrow> (unit, 'h, 'db) io" where
  "handleFileUpload sv =
     andThen (getFilePathAndPassCode sv) (\<lambda>(filePath, passcode, sharedKey).
     andThen (call (CallHash passcode) (hashPasscode sv passcode)) (\<lambda>hashedPassCode.
     andThen (emit (SpinStart ''Processing file...'')) (\<lambda>_.
     tryCatch
       (andThen (call (CallUpload filePath) (uploadFile sv filePath)) (\<lambda>file.
        andThen (db_createSecureFile sv hashedPassCode sharedKey (file_id file)) (\<lambda>_.
        andThen (emit (SpinStop ''File successfully uploaded!'')) (\<lambda>_.
        emit (Note ''Share the passcode and shared key to the user who will download the file''
                ''info'')))))
       (\<lambda>error.
        andThen (emit (SpinStop ''File upload failed!'')) (\<lambda>_.
        emit (ConsoleError ''Error uploading file:'' error))))))"

subsection \<open>The download flow (cli.ts 78-126)\<close>

definition validate_sharedKey :: "string \<Rightarrow> string option" where
  "validate_sharedKey v = (if v = [] then Some ''Must provide the shared key'' else None)"

text \<open>
  Lines 90-125 of \<open>handleFileDownload\<close>: everything after the two prompts, with their
  answers \<open>sharedKey\<close> and \<open>enteredPasscode\<close> as parameters.
\<close>

definition handleFileDownload_after_prompts :: "('h, 'db) services \<Rightarrow> prompt_value \<Rightarrow> string option
    \<Rightarrow> (unit, 'h, 'db) io" where
  "handleFileDownload_after_prompts sv = (\<lambda>sharedKey enteredPasscode.
     andThen (emit (SpinStart ''Varifying passcode...'')) (\<lambda>_.
     andThen (db_getSecureFile sv sharedKey) (\<lambda>found.
     case found of
       None \<Rightarrow> emit (SpinStop ''Wrong shared key!'')
     | Some file \<Rightarrow>
         andThen (call (CallCompare enteredPasscode (hashedPassCode file))
                    (comparePasscode sv enteredPasscode (hashedPassCode file))) (\<lambda>validatePassCode.
         if \<not> validatePassCode then emit (SpinStop ''Wrong passcode!'')
         else
           andThen (emit (SpinStop ''Success!'')) (\<lambda>_.
           andThen (emit (SpinStart ''Downloading...'')) (\<lambda>_.
           tryCatch
             (andThen (call (CallMetadata (fileId file)) (getFileMetadata sv (fileId file))) (\<lambda>fileName.
              case fileName of
                None \<Rightarrow> throw (JsError ''Could not retrieve the file name.'')
              | Some name \<Rightarrow>
                  if name = [] then throw (JsError ''Could not retrieve the file name.'')
                  else
                    andThen (call (CallDownload (fileId file)
                                     (pathJoin sv (pathJoin sv (homedir sv) ''Downloads'') name))
                               (downloadFile sv (fileId file)
                                     (pathJoin sv (pathJoin sv (homedir sv) ''Downloads'') name))) (\<lambda>_.
                    emit (SpinStop (''File downloaded to: ''
                                     @ pathJoin sv (pathJoin sv (homedir sv) ''Downloads'') name)))))
             (\<lambda>error.
              andThen (emit (ConsoleError ''Error downloading file:'' error)) (\<lambda>_.
              emit (Note ''Failed to download file'' ''error'')))))))))"

definition handleFileDownload :: "('h, 'db) services \<Rightarrow> (unit, 'h, 'db) io" where
  "handleFileDownload sv =
     andThen (text_prompt ''Enter the shared key:'' validate_sharedKey) (\<lambda>sharedKey.
     andThen (askPassword ''Enter your passcode to get download link'') (\<lambda>enteredPasscode.
     handleFileDownload_after_prompts sv sharedKey enteredPasscode))"

subsection \<open>Observing a run\<close>

text \<open>A run starts with the answers the user is going to give and the record store as it is.\<close>

definition start :: "user_input list \<Rightarrow> 'db \<Rightarrow> 'db world" where
  "start ins d = \<lparr>inputs = ins, db = d\<rparr>"

text \<open>The three parts of what a flow returns.\<close>

definition outcome :: "'a result \<times> 'h event list \<times> 'db world \<Rightarrow> 'a result" where
  "outcome x = fst x"

definition events :: "'a result \<times> 'h event list \<times> 'db world \<Rightarrow> 'h event list" where
  "events x = fst (snd x)"

definition final :: "'a result \<times> 'h event list \<times> 'db world \<Rightarrow> 'db world" where
  "final x = snd (snd x)"

text \<open>The events a prompt produces.\<close>

fun is_prompt :: "'h event \<Rightarrow> bool" where
  "is_prompt (Ask _) = True"
| "is_prompt (Invalid _) = True"
| "is_prompt _ = False"

subsection \<open>The hasher and the record store\<close>

text \<open>
  Modelled from the spec: the type HashedPasscode (section 3); bcrypt.ts is not among
  the sources. A digest carries the salt it was computed with. A persisted value of
  corrupt format is the only other case.
\<close>

datatype hashed_passcode = Digest (salt: string) (digest: string) | Corrupt string

fun well_formed :: "hashed_passcode \<Rightarrow> bool" where
  "well_formed (Digest _ _) = True"
| "well_formed (Corrupt _) = False"

text \<open>
  Modelled from the spec: PasscodeHasher.hash and PasscodeHasher.verify (section 4.2);
  bcrypt.ts is not among the sources. \<open>kdf\<close> is the salted one-way function and
  \<open>fresh\<close> the salt drawn for this call. \<open>hash\<close> fails with InvalidInput if the
  passcode is empty; \<open>verify\<close> recomputes with the salt embedded in the digest and
  compares, and only a malformed digest is an error.
\<close>

definition PasscodeHasher_hash :: "(string \<Rightarrow> string \<Rightarrow> string) \<Rightarrow> string \<Rightarrow> string
    \<Rightarrow> error + hashed_passcode" where
  "PasscodeHasher_hash kdf fresh passcode =
     (if passcode = [] then Inl InvalidInput else Inr (Digest fresh (kdf fresh passcode)))"

definition PasscodeHasher_verify :: "(string \<Rightarrow> string \<Rightarrow> string) \<Rightarrow> string \<Rightarrow> hashed_passcode
    \<Rightarrow> error + bool" where
  "PasscodeHasher_verify kdf passcode hashed =
     (case hashed of
        Digest s d \<Rightarrow> Inr (kdf s passcode = d)
      | Corrupt _ \<Rightarrow> Inl MalformedDigest)"

text \<open>
  Modelled from the spec: SecureRecordStore.put and SecureRecordStore.get (section 4.3);
  dbService.ts is not among the sources. \<open>put\<close> fails with DuplicateKey if the shared
  key already exists and leaves the store as it was; \<open>get\<close> is a pure lookup.
\<close>

type_synonym record_store = "string \<rightharpoonup> hashed_passcode secure_file"

definition SecureRecordStore_put :: "record_store \<Rightarrow> hashed_passcode secure_file
    \<Rightarrow> error option \<times> record_store" where
  "SecureRecordStore_put store r =
     (case store (sharedKey r) of
        Some _ \<Rightarrow> (Some DuplicateKey, store)
      | None \<Rightarrow> (None, store(sharedKey r \<mapsto> r)))"

definition SecureRecordStore_get :: "record_store \<Rightarrow> string \<Rightarrow> hashed_passcode secure_file option" where
  "SecureRecordStore_get store k = store k"

text \<open>
  Modelled from the spec: the methods of \<open>BCrypt\<close> and \<open>DBService\<close> that cli.ts calls
  (bcrypt.ts and dbService.ts are not among the sources), as the components above. The
  flows can pass \<open>undefined\<close> for a passcode and the cancel symbol for a shared key:
  \<open>undefined\<close> is not a Passcode (InvalidInput on hashing, section 7; no match on
  verification), and the cancel symbol is the key of no record.
\<close>

definition spec_hashPasscode :: "(string \<Rightarrow> string \<Rightarrow> string) \<Rightarrow> string \<Rightarrow> string option
    \<Rightarrow> error + hashed_passcode" where
  "spec_hashPasscode kdf fresh passcode =
     (case passcode of None \<Rightarrow> Inl InvalidInput | Some p \<Rightarrow> PasscodeHasher_hash kdf fresh p)"

definition spec_comparePasscode :: "(string \<Rightarrow> string \<Rightarrow> string) \<Rightarrow> string option \<Rightarrow> hashed_passcode
    \<Rightarrow> error + bool" where
  "spec_comparePasscode kdf passcode hashed =
     (case passcode of
        None \<Rightarrow> (if well_formed hashed then Inr False else Inl MalformedDigest)
      | Some p \<Rightarrow> PasscodeHasher_verify kdf p hashed)"

definition spec_createSecureFile :: "record_store \<Rightarrow> hashed_passcode \<Rightarrow> string \<Rightarrow> string
    \<Rightarrow> error option \<times> record_store" where
  "spec_createSecureFile store h k f =
     SecureRecordStore_put store \<lparr>hashedPassCode = h, sharedKey = k, fileId = f\<rparr>"

definition spec_getSecureFile :: "record_store \<Rightarrow> prompt_value
    \<Rightarrow> error + hashed_passcode secure_file option" where
  "spec_getSecureFile store key =
     (case key of Str k \<Rightarrow> Inr (SecureRecordStore_get store k) | CancelSymbol \<Rightarrow> Inr None)"

subsection \<open>A sample installation\<close>

text \<open>
  Concrete collaborators for the examples below: a drive that accepts every upload and
  serves \<open>report.pdf\<close>, the hasher and store above, and a toy stand-in for the one-way
  function (the theorems hold for every \<open>kdf\<close>; the examples need one that computes).
\<close>

definition toy_kdf :: "string \<Rightarrow> string \<Rightarrow> string" where
  "toy_kdf s p = rev p @ s"

definition sample_services :: "(hashed_passcode, record_store) services" where
  "sample_services =
     \<lparr> existsSync = (\<lambda>p. p = ''report.pdf''),
       homedir = ''/home/u'',
       pathJoin = (\<lambda>a b. a @ ''/'' @ b),
       generateSharedKey = ''K7Q2M9'',
       hashPasscode = spec_hashPasscode toy_kdf ''s1'',
       comparePasscode = spec_comparePasscode toy_kdf,
       uploadFile = (\<lambda>_. Inr (DriveFile ''f-1'')),
       getFileMetadata = (\<lambda>_. Inr (Some ''report.pdf'')),
       downloadFile = (\<lambda>_ _. Inr ()),
       createSecureFile = spec_createSecureFile,
       getSecureFile = spec_getSecureFile \<rparr>"

text \<open>The store after scenario A: \<open>report.pdf\<close> uploaded with passcode \<open>xyz123\<close>.\<close>

definition sample_store :: record_store where
  "sample_store =
     Map.empty(''K7Q2M9'' \<mapsto>
       \<lparr>hashedPassCode = Digest ''s1'' (toy_kdf ''s1'' ''xyz123''),
        sharedKey = ''K7Q2M9'', fileId = ''f-1''\<rparr>)"

text \<open>The sample installation with the drive unreachable for metadata.\<close>

definition offline_services :: "(hashed_passcode, record_store) services" where
  "offline_services = sample_services\<lparr>getFileMetadata := (\<lambda>_. Inl (JsError ''ENOTFOUND''))\<rparr>"

text \<open>The sample installation with the drive refusing uploads, and with the store refusing writes.\<close>

definition upload_down_services :: "(hashed_passcode, record_store) services" where
  "upload_down_services = sample_services\<lparr>uploadFile := (\<lambda>_. Inl (JsError ''ETIMEDOUT''))\<rparr>"

definition store_down_services :: "(hashed_passcode, record_store) services" where
  "store_down_services =
     sample_services\<lparr>createSecureFile := (\<lambda>d _ _ _. (Some (JsError ''ETIMEDOUT''), d))\<rparr>"

section \<open>Properties\<close>

subsection \<open>Unfolding and evaluation\<close>

lemmas io_defs = emit_def throw_def call_def andThen_def tryCatch_def db_getSecureFile_def db_createSecureFile_def
lemmas proj_defs = outcome_def events_def final_def

lemma text_loop_prompt:
  "text_loop validate ins = (r, es, ins') \<Longrightarrow> list_all is_prompt es"
  by (induction validate ins arbitrary: r es ins' rule: text_loop.induct)
     (auto split: option.splits prod.splits)

lemma text_loop_accepts:
  "text_loop validate ins = (Value (Str v), es, ins') \<Longrightarrow> validate v = None"
  by (induction validate ins arbitrary: es ins' rule: text_loop.induct)
     (auto split: option.splits prod.splits)

lemma text_loop_no_throw:
  "text_loop validate ins \<noteq> (Threw e, es, ins')"
  by (induction validate ins arbitrary: es ins' rule: text_loop.induct)
     (auto split: option.splits prod.splits)

lemma text_prompt_prompt:
  "text_prompt message validate w = (r, es, w') \<Longrightarrow> list_all is_prompt es \<and> db w' = db w"
  by (auto simp: text_prompt_def split: prod.splits dest: text_loop_prompt)

lemma text_prompt_accepts:
  "text_prompt message validate w = (Value (Str v), es, w') \<Longrightarrow> validate v = None"
  by (auto simp: text_prompt_def split: prod.splits dest: text_loop_accepts)

lemma text_prompt_no_throw:
  "text_prompt message validate w \<noteq> (Threw e, es, w')"
  by (auto simp: text_prompt_def text_loop_no_throw split: prod.splits)

lemma askPassword_prompt:
  "askPassword message w = (r, es, w') \<Longrightarrow> es = [Ask message] \<and> db w' = db w \<and> r \<noteq> Threw e"
  by (auto simp: askPassword_def split: list.splits user_input.splits)

lemma prompt_member:
  "list_all is_prompt es \<Longrightarrow> e \<in> set es \<Longrightarrow> is_prompt e"
  by (simp add: list_all_iff)

text \<open>Every run of the download flow stops inside the prompts, or runs the rest.\<close>

lemma handleFileDownload_runs:
  fixes sv :: "('h, 'db) services"
  assumes "handleFileDownload sv w = (r, es, w')"
  shows "(r = Blocked \<and> list_all is_prompt es \<and> db w' = db w) \<or>
         (\<exists>ps key pc w2 es3. list_all is_prompt ps \<and> db w2 = db w \<and> es = ps @ es3 \<and>
             key \<noteq> Str [] \<and>
             handleFileDownload_after_prompts sv key pc w2 = (r, es3, w'))"
proof -
  obtain r1 es1 w1 where t: "text_prompt ''Enter the shared key:'' validate_sharedKey w = (r1, es1 :: 'h event list, w1)"
    by (metis prod_cases3)
  obtain r2 es2 w2 where a: "askPassword ''Enter your passcode to get download link'' w1 = (r2, es2 :: 'h event list, w2)"
    by (metis prod_cases3)
  have p1: "list_all is_prompt es1" "db w1 = db w" using t text_prompt_prompt by blast+
  have p2: "list_all is_prompt es2" "db w2 = db w1" using a askPassword_prompt[OF a] by auto
  show ?thesis
  proof (cases r1)
    case (Value key)
    have k: "key \<noteq> Str []"
    proof
      assume "key = Str []"
      then have "validate_sharedKey [] = None" using t Value text_prompt_accepts by blast
      then show False by (simp add: validate_sharedKey_def)
    qed
    show ?thesis
    proof (cases r2)
      case (Value pc)
      obtain es3 where b: "handleFileDownload_after_prompts sv key pc w2 = (r, es3, w')" "es = es1 @ es2 @ es3"
        using assms t a \<open>r1 = Value key\<close> Value
        by (auto simp: handleFileDownload_def andThen_def split: prod.splits)
      have "list_all is_prompt (es1 @ es2)" using p1 p2 by simp
      then show ?thesis using b p1 p2 k by (metis append.assoc)
    next
      case (Threw e)
      then show ?thesis using a askPassword_prompt by blast
    next
      case Blocked
      then show ?thesis using assms t a \<open>r1 = Value key\<close> p1 p2
        by (auto simp: handleFileDownload_def andThen_def)
    qed
  next
    case (Threw e)
    then show ?thesis using t text_prompt_no_throw by blast
  next
    case Blocked
    then show ?thesis using assms t p1 by (auto simp: handleFileDownload_def andThen_def)
  qed
qed

lemma handleFileDownload_answered:
  assumes "text_prompt ''Enter the shared key:'' validate_sharedKey w = (Value key, es1, w1)"
      and "askPassword ''Enter your passcode to get download link'' w1 = (Value pc, es2, w2)"
      and "handleFileDownload_after_prompts sv key pc w2 = (r, es3, w3)"
  shows "handleFileDownload sv w = (r, es1 @ es2 @ es3, w3)"
  using assms by (simp add: handleFileDownload_def andThen_def)

lemma getFilePathAndPassCode_value:
  assumes "getFilePathAndPassCode sv w = (Value (fp, pc, k), es, w')"
  shows "k = generateSharedKey sv \<and> db w' = db w \<and>
         (\<exists>ps. list_all is_prompt ps \<and>
            es = ps @ [SpinStart ''Generating a shared key...'', SpinStop (''Shared key: '' @ k)])"
  using assms
  apply (simp add: getFilePathAndPassCode_def io_defs split: prod.splits result.splits)
  apply (auto dest!: text_prompt_prompt askPassword_prompt)
  done

lemma getFilePathAndPassCode_other:
  assumes "getFilePathAndPassCode sv w = (r, es, w')" "\<forall>x. r \<noteq> Value x"
  shows "list_all is_prompt es \<and> db w' = db w"
  using assms
  apply (simp add: getFilePathAndPassCode_def io_defs split: prod.splits result.splits)
  apply (auto dest!: text_prompt_prompt askPassword_prompt)
  done

subsection \<open>The branches of the two flows\<close>

lemma prompt_shown: "is_prompt e \<Longrightarrow> is_shown e"
  by (cases e) simp_all

lemma prompt_not_call:
  "is_prompt e \<Longrightarrow> \<not> is_upload_call e \<and> \<not> is_compare_call e \<and> \<not> is_storage_call e \<and> \<not> is_create_call e"
  by (cases e) simp_all

lemma shown_prompts: "list_all is_prompt es \<Longrightarrow> shown es = es"
  by (simp add: shown_def list_all_iff prompt_shown)

lemma shown_append: "shown (xs @ ys) = shown xs @ shown ys"
  by (simp add: shown_def)

lemma after_prompts_world:
  "handleFileDownload_after_prompts sv key pc w = (r, es, w') \<Longrightarrow> w' = w"
  by (auto simp: handleFileDownload_after_prompts_def io_defs split: sum.splits option.splits if_splits)

lemma after_prompts_get:
  "handleFileDownload_after_prompts sv key pc w = (r, es, w') \<Longrightarrow> CallGet k \<in> set es \<Longrightarrow> k = key"
  by (auto simp: handleFileDownload_after_prompts_def io_defs split: sum.splits option.splits if_splits)

lemma after_prompts_compare:
  "handleFileDownload_after_prompts sv key pc w = (r, es, w') \<Longrightarrow> CallCompare pc' h \<in> set es \<Longrightarrow>
     CallGet key \<in> set es \<and> pc' = pc \<and> (\<exists>file. getSecureFile sv (db w) key = Inr (Some file) \<and> hashedPassCode file = h)"
  by (auto simp: handleFileDownload_after_prompts_def io_defs split: sum.splits option.splits if_splits)

lemma after_prompts_download:
  "handleFileDownload_after_prompts sv key pc w = (r, es, w') \<Longrightarrow> CallDownload f dest \<in> set es \<Longrightarrow>
     (\<exists>name. getFileMetadata sv f = Inr (Some name) \<and> name \<noteq> [] \<and>
        dest = pathJoin sv (pathJoin sv (homedir sv) ''Downloads'') name)"
  by (auto simp: handleFileDownload_after_prompts_def io_defs split: sum.splits option.splits if_splits)

lemma after_prompts_miss:
  "getSecureFile sv (db w) key = Inr None \<Longrightarrow>
   handleFileDownload_after_prompts sv key pc w =
     (Value (), [SpinStart ''Varifying passcode...'', CallGet key, SpinStop ''Wrong shared key!''], w)"
  by (simp add: handleFileDownload_after_prompts_def io_defs)

lemma after_prompts_mismatch:
  "getSecureFile sv (db w) key = Inr (Some file) \<Longrightarrow> comparePasscode sv pc (hashedPassCode file) = Inr False \<Longrightarrow>
   handleFileDownload_after_prompts sv key pc w =
     (Value (), [SpinStart ''Varifying passcode...'', CallGet key, CallCompare pc (hashedPassCode file), SpinStop ''Wrong passcode!''], w)"
  by (simp add: handleFileDownload_after_prompts_def io_defs)

lemma after_prompts_storage_failure:
  assumes "getSecureFile sv (db w) key = Inr (Some file)"
      and "comparePasscode sv pc (hashedPassCode file) = Inr True"
      and "getFileMetadata sv (fileId file) = Inl e
           \<or> (getFileMetadata sv (fileId file) = Inr None \<and> e = JsError ''Could not retrieve the file name.'')
           \<or> (getFileMetadata sv (fileId file) = Inr (Some []) \<and> e = JsError ''Could not retrieve the file name.'')
           \<or> (\<exists>name. getFileMetadata sv (fileId file) = Inr (Some name) \<and> name \<noteq> [] \<and>
                 downloadFile sv (fileId file) (pathJoin sv (pathJoin sv (homedir sv) ''Downloads'') name) = Inl e)"
  shows "\<exists>cs. list_all is_storage_call cs \<and>
           handleFileDownload_after_prompts sv key pc w =
             (Value (),
              [SpinStart ''Varifying passcode...'', CallGet key, CallCompare pc (hashedPassCode file),
               SpinStop ''Success!'', SpinStart ''Downloading...''] @ cs @
              [ConsoleError ''Error downloading file:'' e, Note ''Failed to download file'' ''error''], w)"
  using assms(3)
proof (elim disjE exE conjE)
  assume "getFileMetadata sv (fileId file) = Inl e"
  then show ?thesis using assms(1,2)
    by (intro exI[of _ "[CallMetadata (fileId file)]"]) (simp add: handleFileDownload_after_prompts_def io_defs)
next
  assume "getFileMetadata sv (fileId file) = Inr None" "e = JsError ''Could not retrieve the file name.''"
  then show ?thesis using assms(1,2)
    by (intro exI[of _ "[CallMetadata (fileId file)]"]) (simp add: handleFileDownload_after_prompts_def io_defs)
next
  assume "getFileMetadata sv (fileId file) = Inr (Some [])" "e = JsError ''Could not retrieve the file name.''"
  then show ?thesis using assms(1,2)
    by (intro exI[of _ "[CallMetadata (fileId file)]"]) (simp add: handleFileDownload_after_prompts_def io_defs)
next
  fix name
  assume "getFileMetadata sv (fileId file) = Inr (Some name)" "name \<noteq> []"
    "downloadFile sv (fileId file) (pathJoin sv (pathJoin sv (homedir sv) ''Downloads'') name) = Inl e"
  then show ?thesis using assms(1,2)
    by (intro exI[of _ "[CallMetadata (fileId file),
           CallDownload (fileId file) (pathJoin sv (pathJoin sv (homedir sv) ''Downloads'') name)]"])
       (simp add: handleFileDownload_after_prompts_def io_defs)
qed

lemma handleFileUpload_answered:
  assumes "getFilePathAndPassCode sv w = (Value (fp, pc, k), es1, w1)"
  shows "handleFileUpload sv w =
    (case hashPasscode sv pc of
       Inl e \<Rightarrow> (Threw e, es1 @ [CallHash pc], w1)
     | Inr h \<Rightarrow>
        (case uploadFile sv fp of
           Inl e \<Rightarrow> (Value (), es1 @ [CallHash pc, SpinStart ''Processing file...'', CallUpload fp,
                        SpinStop ''File upload failed!'', ConsoleError ''Error uploading file:'' e], w1)
         | Inr file \<Rightarrow>
            (case createSecureFile sv (db w1) h k (file_id file) of
               (None, d) \<Rightarrow> (Value (), es1 @ [CallHash pc, SpinStart ''Processing file...'', CallUpload fp,
                        CallCreate h k (file_id file), SpinStop ''File successfully uploaded!'',
                        Note ''Share the passcode and shared key to the user who will download the file'' ''info''],
                        w1\<lparr>db := d\<rparr>)
             | (Some e, d) \<Rightarrow> (Value (), es1 @ [CallHash pc, SpinStart ''Processing file...'', CallUpload fp,
                        CallCreate h k (file_id file), SpinStop ''File upload failed!'',
                        ConsoleError ''Error uploading file:'' e], w1\<lparr>db := d\<rparr>))))"
  using assms
  by (simp add: handleFileUpload_def io_defs split: sum.splits option.splits prod.splits)

lemma handleFileUpload_unanswered:
  assumes "getFilePathAndPassCode sv w = (r1, es1, w1)" "\<forall>x. r1 \<noteq> Value x"
  shows "events (handleFileUpload sv w) = es1 \<and> final (handleFileUpload sv w) = w1 \<and> outcome (handleFileUpload sv w) \<noteq> Value ()"
  using assms
  by (cases r1) (simp_all add: handleFileUpload_def andThen_def proj_defs)

subsection \<open>Sample runs\<close>

lemmas sample_defs = sample_services_def sample_store_def start_def toy_kdf_def spec_hashPasscode_def
  spec_comparePasscode_def spec_createSecureFile_def spec_getSecureFile_def PasscodeHasher_hash_def
  PasscodeHasher_verify_def SecureRecordStore_put_def SecureRecordStore_get_def
lemmas prompt_defs = text_prompt_def askPassword_def validate_sharedKey_def validate_filePath_def
lemmas flow_defs = handleFileDownload_def handleFileDownload_after_prompts_def handleFileUpload_def
  getFilePathAndPassCode_def

lemma sample_wrong_key_run:
  "handleFileDownload sample_services (start [Submit ''WRONGKEY'', Submit ''xyz123''] sample_store) =
     (Value (),
      [Ask ''Enter the shared key:'', Ask ''Enter your passcode to get download link'',
       SpinStart ''Varifying passcode...'', CallGet (Str ''WRONGKEY''), SpinStop ''Wrong shared key!''],
      start [] sample_store)"
  by (simp add: flow_defs io_defs prompt_defs sample_defs)

lemma sample_wrong_passcode_run:
  "handleFileDownload sample_services (start [Submit ''K7Q2M9'', Submit ''wrongpass''] sample_store) =
     (Value (),
      [Ask ''Enter the shared key:'', Ask ''Enter your passcode to get download link'',
       SpinStart ''Varifying passcode...'', CallGet (Str ''K7Q2M9''),
       CallCompare (Some ''wrongpass'') (Digest ''s1'' ''321zyxs1''), SpinStop ''Wrong passcode!''],
      start [] sample_store)"
  by (simp add: flow_defs io_defs prompt_defs sample_defs)

lemma sample_key_prompt:
  "text_prompt ''Enter the shared key:'' validate_sharedKey (start (Submit (c # cs) # ins) d) =
     (Value (Str (c # cs)), [Ask ''Enter the shared key:''], start ins d)"
  by (simp add: prompt_defs start_def)

lemma sample_passcode_prompt:
  "askPassword message (start (Submit p # ins) d) = (Value (Some p), [Ask message], start ins d)"
  by (simp add: prompt_defs start_def)

lemma start_db: "db (start ins d) = d" "inputs (start ins d) = ins"
  by (simp_all add: start_def)

subsection \<open>Credential failures in the download flow\<close>

text \<open>
  C1, as amended. A lookup miss and a passcode mismatch both end the download flow
  normally and before any call of the storage collaborator, but the flow tells them
  apart: it stops the spinner with \<open>Wrong shared key!\<close> on a miss and with
  \<open>Wrong passcode!\<close> on a mismatch, so what the caller sees is never the same.
\<close>

theorem download_credential_failures:
  fixes sv :: "('h, 'db) services"
  assumes "text_prompt ''Enter the shared key:'' validate_sharedKey w = (Value key, es1 :: 'h event list, w1)"
      and "askPassword ''Enter your passcode to get download link'' w1 = (Value pc, es2 :: 'h event list, w2)"
      and "getSecureFile sv (db w2) key = Inr None"
      and "text_prompt ''Enter the shared key:'' validate_sharedKey v = (Value key', fs1 :: 'h event list, v1)"
      and "askPassword ''Enter your passcode to get download link'' v1 = (Value pc', fs2 :: 'h event list, v2)"
      and "getSecureFile sv (db v2) key' = Inr (Some file)"
      and "comparePasscode sv pc' (hashedPassCode file) = Inr False"
  shows "outcome (handleFileDownload sv w) = Value () \<and>
         outcome (handleFileDownload sv v) = Value () \<and>
         shown (events (handleFileDownload sv w)) =
           es1 @ es2 @ [SpinStart ''Varifying passcode...'', SpinStop ''Wrong shared key!''] \<and>
         shown (events (handleFileDownload sv v)) =
           fs1 @ fs2 @ [SpinStart ''Varifying passcode...'', SpinStop ''Wrong passcode!''] \<and>
         \<not> list_ex is_storage_call (events (handleFileDownload sv w)) \<and>
         \<not> list_ex is_storage_call (events (handleFileDownload sv v)) \<and>
         shown (events (handleFileDownload sv w)) \<noteq> shown (events (handleFileDownload sv v))"
proof -
  have rw: "handleFileDownload sv w =
      (Value (), es1 @ es2 @ [SpinStart ''Varifying passcode...'', CallGet key, SpinStop ''Wrong shared key!''], w2)"
    using assms(1,2) after_prompts_miss[OF assms(3)] by (rule handleFileDownload_answered)
  have rv: "handleFileDownload sv v =
      (Value (), fs1 @ fs2 @ [SpinStart ''Varifying passcode...'', CallGet key',
          CallCompare pc' (hashedPassCode file), SpinStop ''Wrong passcode!''], v2)"
    using assms(4,5) after_prompts_mismatch[OF assms(6,7)] by (rule handleFileDownload_answered)
  have pw: "list_all is_prompt (es1 @ es2)"
    using text_prompt_prompt[OF assms(1)] askPassword_prompt[OF assms(2)] by simp
  have pv: "list_all is_prompt (fs1 @ fs2)"
    using text_prompt_prompt[OF assms(4)] askPassword_prompt[OF assms(5)] by simp
  have sw: "shown (events (handleFileDownload sv w)) =
           (es1 @ es2) @ [SpinStart ''Varifying passcode...'', SpinStop ''Wrong shared key!'']"
    using shown_prompts[OF pw] by (simp add: rw events_def shown_append del: append_assoc) (simp add: shown_def)
  have sv': "shown (events (handleFileDownload sv v)) =
           (fs1 @ fs2) @ [SpinStart ''Varifying passcode...'', SpinStop ''Wrong passcode!'']"
    using shown_prompts[OF pv] by (simp add: rv events_def shown_append del: append_assoc) (simp add: shown_def)
  have ne: "shown (events (handleFileDownload sv w)) \<noteq> shown (events (handleFileDownload sv v))"
  proof
    assume "shown (events (handleFileDownload sv w)) = shown (events (handleFileDownload sv v))"
    then have "last ((es1 @ es2) @ [SpinStart ''Varifying passcode...'', SpinStop ''Wrong shared key!''])
             = last ((fs1 @ fs2) @ [SpinStart ''Varifying passcode...'', (SpinStop ''Wrong passcode!'' :: 'h event)])"
      using sw sv' by simp
    then show False by simp
  qed
  have nw: "\<not> list_ex is_storage_call (events (handleFileDownload sv w))"
    using pw by (auto simp: rw events_def list_ex_iff list_all_iff dest: prompt_not_call)
  have nv: "\<not> list_ex is_storage_call (events (handleFileDownload sv v))"
    using pv by (auto simp: rv events_def list_ex_iff list_all_iff dest: prompt_not_call)
  show ?thesis using sw sv' ne nw nv by (simp add: rw rv outcome_def)
qed

text \<open>The two runs of scenario B, through the theorem.\<close>

theorem download_credential_failures_witness:
  "getSecureFile sample_services sample_store (Str ''WRONGKEY'') = Inr None \<and>
   comparePasscode sample_services (Some ''wrongpass'') (Digest ''s1'' ''321zyxs1'') = Inr False \<and>
   shown (events (handleFileDownload sample_services
            (start [Submit ''WRONGKEY'', Submit ''xyz123''] sample_store))) =
     [Ask ''Enter the shared key:'', Ask ''Enter your passcode to get download link'',
      SpinStart ''Varifying passcode...'', SpinStop ''Wrong shared key!''] \<and>
   shown (events (handleFileDownload sample_services
            (start [Submit ''K7Q2M9'', Submit ''wrongpass''] sample_store))) =
     [Ask ''Enter the shared key:'', Ask ''Enter your passcode to get download link'',
      SpinStart ''Varifying passcode...'', SpinStop ''Wrong passcode!'']"
proof -
  have a3: "getSecureFile sample_services (db (start [] sample_store)) (Str ''WRONGKEY'') = Inr None"
    by (simp add: sample_defs)
  have b3: "getSecureFile sample_services (db (start [] sample_store)) (Str ''K7Q2M9'') =
      Inr (Some \<lparr>hashedPassCode = Digest ''s1'' ''321zyxs1'', sharedKey = ''K7Q2M9'', fileId = ''f-1''\<rparr>)"
    by (simp add: sample_defs)
  have b4: "comparePasscode sample_services (Some ''wrongpass'')
       (hashedPassCode \<lparr>hashedPassCode = Digest ''s1'' ''321zyxs1'', sharedKey = ''K7Q2M9'', fileId = ''f-1''\<rparr>) = Inr False"
    by (simp add: sample_defs)
  note t = download_credential_failures [OF sample_key_prompt sample_passcode_prompt a3
              sample_key_prompt sample_passcode_prompt b3 b4]
  show ?thesis using t a3 b4 by (simp add: start_db)
qed

text \<open>
  C1 as stated (both failures give the same caller-visible result) fails in scenario B:
  the unknown key \<open>WRONGKEY\<close> and the stored key with \<open>wrongpass\<close> show
  different messages.
\<close>

theorem download_credential_failures_counterexample:
  "sample_store ''WRONGKEY'' = None \<and> sample_store ''K7Q2M9'' \<noteq> None \<and>
   shown (events (handleFileDownload sample_services
            (start [Submit ''WRONGKEY'', Submit ''xyz123''] sample_store)))
   \<noteq> shown (events (handleFileDownload sample_services
            (start [Submit ''K7Q2M9'', Submit ''wrongpass''] sample_store)))"
  by (simp add: sample_wrong_key_run sample_wrong_passcode_run events_def shown_def)
     (simp add: sample_store_def)

subsection \<open>Verification follows a successful lookup\<close>

text \<open>
  C9. In the download flow \<open>comparePasscode\<close> is called only on the digest of a record
  that the lookup found: in every run, a call of \<open>comparePasscode\<close> with digest \<open>h\<close>
  comes with a lookup that returned a record whose digest is \<open>h\<close>; and when the lookup
  returns no record, the flow returns normally without any call of \<open>comparePasscode\<close>.
\<close>

theorem download_verifies_only_found_record:
  fixes sv :: "('h, 'db) services"
  shows
  "(handleFileDownload sv w = (r, es, w') \<and> CallCompare pc h \<in> set es \<longrightarrow>
      (\<exists>key file. CallGet key \<in> set es \<and> getSecureFile sv (db w) key = Inr (Some file)
          \<and> hashedPassCode file = h)) \<and>
   (text_prompt ''Enter the shared key:'' validate_sharedKey v = (Value key', es1 :: 'h event list, v1) \<and>
    askPassword ''Enter your passcode to get download link'' v1 = (Value pc', es2 :: 'h event list, v2) \<and>
    getSecureFile sv (db v2) key' = Inr None \<longrightarrow>
      outcome (handleFileDownload sv v) = Value () \<and>
      \<not> list_ex is_compare_call (events (handleFileDownload sv v)))"
proof (intro conjI impI)
  assume a: "handleFileDownload sv w = (r, es, w') \<and> CallCompare pc h \<in> set es"
  then have run: "handleFileDownload sv w = (r, es, w')" and c: "CallCompare pc h \<in> set es" by simp_all
  from handleFileDownload_runs[OF run]
  show "\<exists>key file. CallGet key \<in> set es \<and> getSecureFile sv (db w) key = Inr (Some file)
          \<and> hashedPassCode file = h"
  proof
    assume "r = Blocked \<and> list_all is_prompt es \<and> db w' = db w"
    then have "is_prompt (CallCompare pc h)" using c prompt_member by blast
    then show ?thesis by simp
  next
    assume "\<exists>ps key pc w2 es3. list_all is_prompt ps \<and> db w2 = db w \<and> es = ps @ es3 \<and>
             key \<noteq> Str [] \<and> handleFileDownload_after_prompts sv key pc w2 = (r, es3, w')"
    then obtain ps key pc2 w2 es3 where ps: "list_all is_prompt ps" and d: "db w2 = db w"
      and es: "es = ps @ es3"
      and b: "handleFileDownload_after_prompts sv key pc2 w2 = (r, es3, w')" by blast
    have "CallCompare pc h \<notin> set ps" using ps prompt_member by fastforce
    then have "CallCompare pc h \<in> set es3" using c es by simp
    from after_prompts_compare[OF b this] show ?thesis using d es by auto
  qed
next
  assume a: "text_prompt ''Enter the shared key:'' validate_sharedKey v = (Value key', es1, v1) \<and>
    askPassword ''Enter your passcode to get download link'' v1 = (Value pc', es2, v2) \<and>
    getSecureFile sv (db v2) key' = Inr None"
  then have t: "text_prompt ''Enter the shared key:'' validate_sharedKey v = (Value key', es1, v1)"
    and p: "askPassword ''Enter your passcode to get download link'' v1 = (Value pc', es2, v2)"
    and m: "getSecureFile sv (db v2) key' = Inr None" by simp_all
  have run: "handleFileDownload sv v = (Value (), es1 @ es2 @
       [SpinStart ''Varifying passcode...'', CallGet key', SpinStop ''Wrong shared key!''], v2)"
    using t p after_prompts_miss[OF m] by (rule handleFileDownload_answered)
  have pr: "list_all is_prompt (es1 @ es2)"
    using text_prompt_prompt[OF t] askPassword_prompt[OF p] by simp
  show "outcome (handleFileDownload sv v) = Value ()" by (simp add: run outcome_def)
  show "\<not> list_ex is_compare_call (events (handleFileDownload sv v))"
    using pr by (auto simp: run events_def list_ex_iff list_all_iff dest: prompt_not_call)
qed

text \<open>Scenario B: the mismatch run calls \<open>comparePasscode\<close>, the unknown-key run does not.\<close>

theorem download_verifies_only_found_record_witness:
  "CallCompare (Some ''wrongpass'') (Digest ''s1'' ''321zyxs1'')
     \<in> set (events (handleFileDownload sample_services
                 (start [Submit ''K7Q2M9'', Submit ''wrongpass''] sample_store))) \<and>
   (\<exists>key file. getSecureFile sample_services sample_store key = Inr (Some file)
       \<and> hashedPassCode file = Digest ''s1'' ''321zyxs1'') \<and>
   getSecureFile sample_services sample_store (Str ''WRONGKEY'') = Inr None \<and>
   outcome (handleFileDownload sample_services
             (start [Submit ''WRONGKEY'', Submit ''xyz123''] sample_store)) = Value () \<and>
   \<not> list_ex is_compare_call (events (handleFileDownload sample_services
             (start [Submit ''WRONGKEY'', Submit ''xyz123''] sample_store)))"
proof -
  have c: "CallCompare (Some ''wrongpass'') (Digest ''s1'' ''321zyxs1'')
     \<in> set [Ask ''Enter the shared key:'', Ask ''Enter your passcode to get download link'',
       SpinStart ''Varifying passcode...'', CallGet (Str ''K7Q2M9''),
       CallCompare (Some ''wrongpass'') (Digest ''s1'' ''321zyxs1''), SpinStop ''Wrong passcode!'']"
    by simp
  have m: "getSecureFile sample_services (db (start [] sample_store)) (Str ''WRONGKEY'') = Inr None"
    by (simp add: sample_defs)
  note t = download_verifies_only_found_record
     [of sample_services "start [Submit ''K7Q2M9'', Submit ''wrongpass''] sample_store" _ _ _
         "Some ''wrongpass''" "Digest ''s1'' ''321zyxs1''"
         "start [Submit ''WRONGKEY'', Submit ''xyz123''] sample_store"]
  from t[THEN conjunct1, rule_format, OF conjI, OF sample_wrong_passcode_run c]
       t[THEN conjunct2, rule_format, OF conjI, OF sample_key_prompt conjI, OF sample_passcode_prompt m]
       m
  show ?thesis
    by (auto simp: sample_wrong_passcode_run events_def start_db)
qed

subsection \<open>Storage failures after a successful check\<close>

lemma storage_call_hidden: "is_storage_call e \<Longrightarrow> \<not> is_shown e"
  by (cases e) simp_all

text \<open>
  C7. When the lookup and the verification succeeded and the storage collaborator then
  fails (the metadata call rejects, it returns no file name, or the download rejects),
  the flow returns normally and shows \<open>Success!\<close>, the caught error after
  \<open>Error downloading file:\<close> and the note \<open>Failed to download file\<close>; neither
  \<open>Wrong shared key!\<close> nor \<open>Wrong passcode!\<close> appears in the run.
\<close>

theorem download_storage_failure_distinct:
  fixes sv :: "('h, 'db) services"
  assumes "text_prompt ''Enter the shared key:'' validate_sharedKey w = (Value key, es1 :: 'h event list, w1)"
      and "askPassword ''Enter your passcode to get download link'' w1 = (Value pc, es2 :: 'h event list, w2)"
      and "getSecureFile sv (db w2) key = Inr (Some file)"
      and "comparePasscode sv pc (hashedPassCode file) = Inr True"
      and "getFileMetadata sv (fileId file) = Inl e
           \<or> (getFileMetadata sv (fileId file) = Inr None \<and> e = JsError ''Could not retrieve the file name.'')
           \<or> (getFileMetadata sv (fileId file) = Inr (Some []) \<and> e = JsError ''Could not retrieve the file name.'')
           \<or> (\<exists>name. getFileMetadata sv (fileId file) = Inr (Some name) \<and> name \<noteq> [] \<and>
                 downloadFile sv (fileId file) (pathJoin sv (pathJoin sv (homedir sv) ''Downloads'') name) = Inl e)"
  shows "outcome (handleFileDownload sv w) = Value () \<and>
         shown (events (handleFileDownload sv w)) =
           es1 @ es2 @ [SpinStart ''Varifying passcode...'', SpinStop ''Success!'',
                        SpinStart ''Downloading...'', ConsoleError ''Error downloading file:'' e,
                        Note ''Failed to download file'' ''error''] \<and>
         SpinStop ''Wrong shared key!'' \<notin> set (events (handleFileDownload sv w)) \<and>
         SpinStop ''Wrong passcode!'' \<notin> set (events (handleFileDownload sv w))"
proof -
  obtain cs where cs: "list_all is_storage_call cs"
    and b: "handleFileDownload_after_prompts sv key pc w2 =
             (Value (),
              [SpinStart ''Varifying passcode...'', CallGet key, CallCompare pc (hashedPassCode file),
               SpinStop ''Success!'', SpinStart ''Downloading...''] @ cs @
              [ConsoleError ''Error downloading file:'' e, Note ''Failed to download file'' ''error''], w2)"
    using after_prompts_storage_failure[OF assms(3,4,5)] by blast
  note run = handleFileDownload_answered[OF assms(1,2) b]
  have p1: "list_all is_prompt es1" using text_prompt_prompt[OF assms(1)] by simp
  have p2: "list_all is_prompt es2" using askPassword_prompt[OF assms(2)] by simp
  have pr: "list_all is_prompt (es1 @ es2)" using p1 p2 by simp
  have scs: "filter is_shown cs = []"
    using cs by (auto simp: list_all_iff filter_empty_conv dest: storage_call_hidden)
  have s: "shown (events (handleFileDownload sv w)) =
           es1 @ es2 @ [SpinStart ''Varifying passcode...'', SpinStop ''Success!'',
                        SpinStart ''Downloading...'', ConsoleError ''Error downloading file:'' e,
                        Note ''Failed to download file'' ''error'']"
    using shown_prompts[OF p1] shown_prompts[OF p2] scs by (simp add: run events_def shown_def)
  have n1: "SpinStop m \<notin> set (es1 @ es2)" for m
  proof
    assume "SpinStop m \<in> set (es1 @ es2)"
    then have "is_prompt (SpinStop m :: 'h event)" using pr prompt_member by blast
    then show False by simp
  qed
  have n2: "SpinStop m \<notin> set cs" for m
  proof
    assume "SpinStop m \<in> set cs"
    then have "is_storage_call (SpinStop m :: 'h event)" using cs by (auto simp: list_all_iff)
    then show False by simp
  qed
  have "SpinStop ''Wrong shared key!'' \<notin> set (events (handleFileDownload sv w))"
       "SpinStop ''Wrong passcode!'' \<notin> set (events (handleFileDownload sv w))"
    using n1[of "''Wrong shared key!''"] n1[of "''Wrong passcode!''"]
          n2[of "''Wrong shared key!''"] n2[of "''Wrong passcode!''"]
    by (simp_all add: run events_def)
  then show ?thesis using s by (simp add: run outcome_def)
qed

text \<open>Scenario A's download with the metadata call failing.\<close>

theorem download_storage_failure_distinct_witness:
  "getFileMetadata offline_services ''f-1'' = Inl (JsError ''ENOTFOUND'') \<and>
   outcome (handleFileDownload offline_services
              (start [Submit ''K7Q2M9'', Submit ''xyz123''] sample_store)) = Value () \<and>
   shown (events (handleFileDownload offline_services
              (start [Submit ''K7Q2M9'', Submit ''xyz123''] sample_store))) =
     [Ask ''Enter the shared key:'', Ask ''Enter your passcode to get download link'',
      SpinStart ''Varifying passcode...'', SpinStop ''Success!'', SpinStart ''Downloading...'',
      ConsoleError ''Error downloading file:'' (JsError ''ENOTFOUND''),
      Note ''Failed to download file'' ''error'']"
proof -
  have g: "getSecureFile offline_services (db (start [] sample_store)) (Str ''K7Q2M9'') =
      Inr (Some \<lparr>hashedPassCode = Digest ''s1'' ''321zyxs1'', sharedKey = ''K7Q2M9'', fileId = ''f-1''\<rparr>)"
    by (simp add: offline_services_def sample_defs)
  have c: "comparePasscode offline_services (Some ''xyz123'')
       (hashedPassCode \<lparr>hashedPassCode = Digest ''s1'' ''321zyxs1'', sharedKey = ''K7Q2M9'', fileId = ''f-1''\<rparr>) = Inr True"
    by (simp add: offline_services_def sample_defs)
  have f: "getFileMetadata offline_services ''f-1'' = Inl (JsError ''ENOTFOUND'')"
    by (simp add: offline_services_def sample_defs)
  have f': "getFileMetadata offline_services
       (fileId \<lparr>hashedPassCode = Digest ''s1'' ''321zyxs1'', sharedKey = ''K7Q2M9'', fileId = ''f-1''\<rparr>) = Inl (JsError ''ENOTFOUND'')
      \<or> (getFileMetadata offline_services (fileId \<lparr>hashedPassCode = Digest ''s1'' ''321zyxs1'', sharedKey = ''K7Q2M9'', fileId = ''f-1''\<rparr>) = Inr None \<and> JsError ''ENOTFOUND'' = JsError ''Could not retrieve the file name.'')
      \<or> (getFileMetadata offline_services (fileId \<lparr>hashedPassCode = Digest ''s1'' ''321zyxs1'', sharedKey = ''K7Q2M9'', fileId = ''f-1''\<rparr>) = Inr (Some []) \<and> JsError ''ENOTFOUND'' = JsError ''Could not retrieve the file name.'')
      \<or> (\<exists>name. getFileMetadata offline_services (fileId \<lparr>hashedPassCode = Digest ''s1'' ''321zyxs1'', sharedKey = ''K7Q2M9'', fileId = ''f-1''\<rparr>) = Inr (Some name) \<and> name \<noteq> [] \<and>
                 downloadFile offline_services (fileId \<lparr>hashedPassCode = Digest ''s1'' ''321zyxs1'', sharedKey = ''K7Q2M9'', fileId = ''f-1''\<rparr>) (pathJoin offline_services (pathJoin offline_services (homedir offline_services) ''Downloads'') name) = Inl (JsError ''ENOTFOUND''))"
    using f by simp
  note t = download_storage_failure_distinct [OF sample_key_prompt sample_passcode_prompt g c f']
  show ?thesis using t f by simp
qed

subsection \<open>The destination of a download\<close>

lemma after_prompts_download_call:
  assumes "getSecureFile sv (db w) key = Inr (Some found)"
      and "comparePasscode sv pc (hashedPassCode found) = Inr True"
      and "getFileMetadata sv (fileId found) = Inr (Some name)"
      and "name \<noteq> []"
  shows "handleFileDownload_after_prompts sv key pc w =
    (Value (),
     [SpinStart ''Varifying passcode...'', CallGet key, CallCompare pc (hashedPassCode found),
      SpinStop ''Success!'', SpinStart ''Downloading...'', CallMetadata (fileId found),
      CallDownload (fileId found) (pathJoin sv (pathJoin sv (homedir sv) ''Downloads'') name)] @
     (case downloadFile sv (fileId found) (pathJoin sv (pathJoin sv (homedir sv) ''Downloads'') name) of
        Inr _ \<Rightarrow> [SpinStop (''File downloaded to: ''
                         @ pathJoin sv (pathJoin sv (homedir sv) ''Downloads'') name)]
      | Inl e \<Rightarrow> [ConsoleError ''Error downloading file:'' e,
                   Note ''Failed to download file'' ''error'']),
     w)"
  using assms
  by (simp add: handleFileDownload_after_prompts_def io_defs split: sum.splits)

text \<open>
  C4, as amended. After the credential check succeeded and the storage metadata returned
  a file name, the flow downloads the file to a destination fixed by the system,
  \<open>path.join(path.join(os.homedir(), 'Downloads'), fileName)\<close>: it calls \<open>downloadFile\<close>
  with the file id of the record and that path, and when the call succeeds it reports
  \<open>File downloaded to:\<close> that path and returns. Conversely, every call of
  \<open>downloadFile\<close> in any run has such a destination, with \<open>fileName\<close> the non-empty name
  the metadata returned for that file. No answer of the caller enters it.
\<close>

theorem download_destination_fixed:
  fixes sv :: "('h, 'db) services"
  shows
  "(text_prompt ''Enter the shared key:'' validate_sharedKey v = (Value key, es1 :: 'h event list, v1) \<and>
    askPassword ''Enter your passcode to get download link'' v1 = (Value pc, es2 :: 'h event list, v2) \<and>
    getSecureFile sv (db v2) key = Inr (Some found) \<and>
    comparePasscode sv pc (hashedPassCode found) = Inr True \<and>
    getFileMetadata sv (fileId found) = Inr (Some name) \<and> name \<noteq> [] \<longrightarrow>
      outcome (handleFileDownload sv v) = Value () \<and>
      (\<exists>tail. events (handleFileDownload sv v) =
         es1 @ es2 @
         [SpinStart ''Varifying passcode...'', CallGet key, CallCompare pc (hashedPassCode found),
          SpinStop ''Success!'', SpinStart ''Downloading...'', CallMetadata (fileId found),
          CallDownload (fileId found) (pathJoin sv (pathJoin sv (homedir sv) ''Downloads'') name)]
         @ tail) \<and>
      CallDownload (fileId found) (pathJoin sv (pathJoin sv (homedir sv) ''Downloads'') name)
        \<in> set (events (handleFileDownload sv v)) \<and>
      (downloadFile sv (fileId found) (pathJoin sv (pathJoin sv (homedir sv) ''Downloads'') name) = Inr ()
        \<longrightarrow> handleFileDownload sv v =
          (Value (),
           es1 @ es2 @
           [SpinStart ''Varifying passcode...'', CallGet key, CallCompare pc (hashedPassCode found),
            SpinStop ''Success!'', SpinStart ''Downloading...'', CallMetadata (fileId found),
            CallDownload (fileId found) (pathJoin sv (pathJoin sv (homedir sv) ''Downloads'') name),
            SpinStop (''File downloaded to: ''
                        @ pathJoin sv (pathJoin sv (homedir sv) ''Downloads'') name)],
           v2))) \<and>
   (handleFileDownload sv w = (r, es, w') \<and> CallDownload f dest \<in> set es \<longrightarrow>
      (\<exists>name'. getFileMetadata sv f = Inr (Some name') \<and> name' \<noteq> [] \<and>
           dest = pathJoin sv (pathJoin sv (homedir sv) ''Downloads'') name'))"
proof (intro conjI impI)
  assume a: "text_prompt ''Enter the shared key:'' validate_sharedKey v = (Value key, es1, v1) \<and>
    askPassword ''Enter your passcode to get download link'' v1 = (Value pc, es2, v2) \<and>
    getSecureFile sv (db v2) key = Inr (Some found) \<and>
    comparePasscode sv pc (hashedPassCode found) = Inr True \<and>
    getFileMetadata sv (fileId found) = Inr (Some name) \<and> name \<noteq> []"
  then have t: "text_prompt ''Enter the shared key:'' validate_sharedKey v = (Value key, es1, v1)"
    and p: "askPassword ''Enter your passcode to get download link'' v1 = (Value pc, es2, v2)"
    and g: "getSecureFile sv (db v2) key = Inr (Some found)"
    and c: "comparePasscode sv pc (hashedPassCode found) = Inr True"
    and m: "getFileMetadata sv (fileId found) = Inr (Some name)" and n: "name \<noteq> []" by simp_all
  note run = handleFileDownload_answered[OF t p after_prompts_download_call[OF g c m n]]
  show o: "outcome (handleFileDownload sv v) = Value ()" by (simp add: run outcome_def)
  show e: "\<exists>tail. events (handleFileDownload sv v) =
         es1 @ es2 @
         [SpinStart ''Varifying passcode...'', CallGet key, CallCompare pc (hashedPassCode found),
          SpinStop ''Success!'', SpinStart ''Downloading...'', CallMetadata (fileId found),
          CallDownload (fileId found) (pathJoin sv (pathJoin sv (homedir sv) ''Downloads'') name)]
         @ tail"
    by (simp add: run events_def)
  show "CallDownload (fileId found) (pathJoin sv (pathJoin sv (homedir sv) ''Downloads'') name)
        \<in> set (events (handleFileDownload sv v))"
    by (simp add: run events_def)
  show "handleFileDownload sv v =
          (Value (),
           es1 @ es2 @
           [SpinStart ''Varifying passcode...'', CallGet key, CallCompare pc (hashedPassCode found),
            SpinStop ''Success!'', SpinStart ''Downloading...'', CallMetadata (fileId found),
            CallDownload (fileId found) (pathJoin sv (pathJoin sv (homedir sv) ''Downloads'') name),
            SpinStop (''File downloaded to: ''
                        @ pathJoin sv (pathJoin sv (homedir sv) ''Downloads'') name)],
           v2)"
    if "downloadFile sv (fileId found) (pathJoin sv (pathJoin sv (homedir sv) ''Downloads'') name) = Inr ()"
    using that by (simp add: run)
next
  assume a: "handleFileDownload sv w = (r, es, w') \<and> CallDownload f dest \<in> set es"
  then have run: "handleFileDownload sv w = (r, es, w')" and d: "CallDownload f dest \<in> set es"
    by simp_all
  from handleFileDownload_runs[OF run]
  show "\<exists>name'. getFileMetadata sv f = Inr (Some name') \<and> name' \<noteq> [] \<and>
           dest = pathJoin sv (pathJoin sv (homedir sv) ''Downloads'') name'"
  proof
    assume "r = Blocked \<and> list_all is_prompt es \<and> db w' = db w"
    then have "is_prompt (CallDownload f dest :: 'h event)" using d prompt_member by blast
    then show ?thesis by simp
  next
    assume "\<exists>ps key pc w2 es3. list_all is_prompt ps \<and> db w2 = db w \<and> es = ps @ es3 \<and>
             key \<noteq> Str [] \<and> handleFileDownload_after_prompts sv key pc w2 = (r, es3, w')"
    then obtain ps key' pc' w2 es3 where ps: "list_all is_prompt ps" and es: "es = ps @ es3"
      and b: "handleFileDownload_after_prompts sv key' pc' w2 = (r, es3, w')" by blast
    have "CallDownload f dest \<notin> set ps" using ps prompt_member by fastforce
    then have "CallDownload f dest \<in> set es3" using d es by simp
    from after_prompts_download[OF b this] show ?thesis .
  qed
qed

lemma sample_download_run:
  "handleFileDownload sample_services
      (start [Submit ''K7Q2M9'', Submit ''xyz123'', Submit ''/tmp/out''] sample_store) =
     (Value (),
      [Ask ''Enter the shared key:'', Ask ''Enter your passcode to get download link'',
       SpinStart ''Varifying passcode...'', CallGet (Str ''K7Q2M9''),
       CallCompare (Some ''xyz123'') (Digest ''s1'' ''321zyxs1''),
       SpinStop ''Success!'', SpinStart ''Downloading...'', CallMetadata ''f-1'',
       CallDownload ''f-1'' ''/home/u/Downloads/report.pdf'',
       SpinStop ''File downloaded to: /home/u/Downloads/report.pdf''],
      start [Submit ''/tmp/out''] sample_store)"
  by (simp add: flow_defs io_defs prompt_defs sample_defs)

text \<open>Scenario A's download, through the theorem.\<close>

theorem download_destination_fixed_witness:
  "getSecureFile sample_services sample_store (Str ''K7Q2M9'') =
      Inr (Some \<lparr>hashedPassCode = Digest ''s1'' ''321zyxs1'', sharedKey = ''K7Q2M9'', fileId = ''f-1''\<rparr>) \<and>
   comparePasscode sample_services (Some ''xyz123'') (Digest ''s1'' ''321zyxs1'') = Inr True \<and>
   getFileMetadata sample_services ''f-1'' = Inr (Some ''report.pdf'') \<and>
   downloadFile sample_services ''f-1'' ''/home/u/Downloads/report.pdf'' = Inr () \<and>
   handleFileDownload sample_services
      (start [Submit ''K7Q2M9'', Submit ''xyz123'', Submit ''/tmp/out''] sample_store) =
     (Value (),
      [Ask ''Enter the shared key:'', Ask ''Enter your passcode to get download link'',
       SpinStart ''Varifying passcode...'', CallGet (Str ''K7Q2M9''),
       CallCompare (Some ''xyz123'') (Digest ''s1'' ''321zyxs1''),
       SpinStop ''Success!'', SpinStart ''Downloading...'', CallMetadata ''f-1'',
       CallDownload ''f-1'' ''/home/u/Downloads/report.pdf'',
       SpinStop ''File downloaded to: /home/u/Downloads/report.pdf''],
      start [Submit ''/tmp/out''] sample_store) \<and>
   (\<exists>name. getFileMetadata sample_services ''f-1'' = Inr (Some name) \<and> name \<noteq> [] \<and>
      ''/home/u/Downloads/report.pdf'' =
         pathJoin sample_services (pathJoin sample_services (homedir sample_services) ''Downloads'') name)"
proof -
  let ?found = "\<lparr>hashedPassCode = Digest ''s1'' ''321zyxs1'', sharedKey = ''K7Q2M9'', fileId = ''f-1''\<rparr>"
  let ?w = "start [Submit ''K7Q2M9'', Submit ''xyz123'', Submit ''/tmp/out''] sample_store"
  let ?es = "[Ask ''Enter the shared key:'', Ask ''Enter your passcode to get download link'',
       SpinStart ''Varifying passcode...'', CallGet (Str ''K7Q2M9''),
       CallCompare (Some ''xyz123'') (Digest ''s1'' ''321zyxs1''),
       SpinStop ''Success!'', SpinStart ''Downloading...'', CallMetadata ''f-1'',
       CallDownload ''f-1'' ''/home/u/Downloads/report.pdf'',
       SpinStop ''File downloaded to: /home/u/Downloads/report.pdf''] :: hashed_passcode event list"
  have t: "text_prompt ''Enter the shared key:'' validate_sharedKey ?w =
           (Value (Str ''K7Q2M9''), [Ask ''Enter the shared key:''] :: hashed_passcode event list,
            start [Submit ''xyz123'', Submit ''/tmp/out''] sample_store)"
    by (rule sample_key_prompt)
  have p: "askPassword ''Enter your passcode to get download link''
             (start [Submit ''xyz123'', Submit ''/tmp/out''] sample_store) =
           (Value (Some ''xyz123''),
            [Ask ''Enter your passcode to get download link''] :: hashed_passcode event list,
            start [Submit ''/tmp/out''] sample_store)"
    by (rule sample_passcode_prompt)
  have g: "getSecureFile sample_services (db (start [Submit ''/tmp/out''] sample_store)) (Str ''K7Q2M9'')
             = Inr (Some ?found)"
    by (simp add: sample_defs)
  have c: "comparePasscode sample_services (Some ''xyz123'') (hashedPassCode ?found) = Inr True"
    by (simp add: sample_defs)
  have m: "getFileMetadata sample_services (fileId ?found) = Inr (Some ''report.pdf'')"
    by (simp add: sample_defs)
  have n: "''report.pdf'' \<noteq> []" by simp
  have pj: "pathJoin sample_services (pathJoin sample_services (homedir sample_services) ''Downloads'')
              ''report.pdf'' = ''/home/u/Downloads/report.pdf''"
    by (simp add: sample_defs)
  have dl: "downloadFile sample_services (fileId ?found)
              (pathJoin sample_services (pathJoin sample_services (homedir sample_services) ''Downloads'')
                 ''report.pdf'') = Inr ()"
    by (simp add: sample_defs)
  have mem: "CallDownload ''f-1'' ''/home/u/Downloads/report.pdf'' \<in> set ?es" by simp
  note th = download_destination_fixed
    [where sv = sample_services and v = ?w and key = "Str ''K7Q2M9''"
       and ?es1.0 = "[Ask ''Enter the shared key:'']"
       and ?v1.0 = "start [Submit ''xyz123'', Submit ''/tmp/out''] sample_store"
       and pc = "Some ''xyz123''"
       and ?es2.0 = "[Ask ''Enter your passcode to get download link'']"
       and ?v2.0 = "start [Submit ''/tmp/out''] sample_store"
       and found = ?found and name = "''report.pdf''"
       and w = ?w and r = "Value ()" and es = ?es and w' = "start [Submit ''/tmp/out''] sample_store"
       and f = "''f-1''" and dest = "''/home/u/Downloads/report.pdf''"]
  have a: "handleFileDownload sample_services ?w =
          (Value (),
           [Ask ''Enter the shared key:''] @ [Ask ''Enter your passcode to get download link''] @
           [SpinStart ''Varifying passcode...'', CallGet (Str ''K7Q2M9''),
            CallCompare (Some ''xyz123'') (hashedPassCode ?found),
            SpinStop ''Success!'', SpinStart ''Downloading...'', CallMetadata (fileId ?found),
            CallDownload (fileId ?found)
              (pathJoin sample_services (pathJoin sample_services (homedir sample_services) ''Downloads'')
                 ''report.pdf''),
            SpinStop (''File downloaded to: ''
               @ pathJoin sample_services (pathJoin sample_services (homedir sample_services) ''Downloads'')
                 ''report.pdf'')],
           start [Submit ''/tmp/out''] sample_store)"
    using th t p g c m n dl by blast
  have b: "\<exists>name. getFileMetadata sample_services ''f-1'' = Inr (Some name) \<and> name \<noteq> [] \<and>
      ''/home/u/Downloads/report.pdf'' =
         pathJoin sample_services (pathJoin sample_services (homedir sample_services) ''Downloads'') name"
    using th sample_download_run mem by blast
  have g': "getSecureFile sample_services sample_store (Str ''K7Q2M9'') = Inr (Some ?found)"
    using g by (simp add: start_db)
  have c': "comparePasscode sample_services (Some ''xyz123'') (Digest ''s1'' ''321zyxs1'') = Inr True"
    using c by simp
  have m': "getFileMetadata sample_services ''f-1'' = Inr (Some ''report.pdf'')" using m by simp
  have dl': "downloadFile sample_services ''f-1'' ''/home/u/Downloads/report.pdf'' = Inr ()"
    using dl by (simp add: pj)
  have a': "handleFileDownload sample_services ?w = (Value (), ?es, start [Submit ''/tmp/out''] sample_store)"
    using a by (simp add: pj)
  show ?thesis using a' b g' c' m' dl' by blast
qed

text \<open>
  C4 as stated (the destination is an input chosen by the caller) fails in scenario A:
  the flow reads two answers, the key and the passcode; a third answer \<open>/tmp/out\<close> is
  left unread, and the file goes to \<open>/home/u/Downloads/report.pdf\<close>, which the caller
  never entered.
\<close>

theorem download_destination_counterexample:
  "inputs (start [Submit ''K7Q2M9'', Submit ''xyz123'', Submit ''/tmp/out''] sample_store)
      = [Submit ''K7Q2M9'', Submit ''xyz123'', Submit ''/tmp/out''] \<and>
   events (handleFileDownload sample_services
      (start [Submit ''K7Q2M9'', Submit ''xyz123'', Submit ''/tmp/out''] sample_store)) =
      [Ask ''Enter the shared key:'', Ask ''Enter your passcode to get download link'',
       SpinStart ''Varifying passcode...'', CallGet (Str ''K7Q2M9''),
       CallCompare (Some ''xyz123'') (Digest ''s1'' ''321zyxs1''),
       SpinStop ''Success!'', SpinStart ''Downloading...'', CallMetadata ''f-1'',
       CallDownload ''f-1'' ''/home/u/Downloads/report.pdf'',
       SpinStop ''File downloaded to: /home/u/Downloads/report.pdf''] \<and>
   inputs (final (handleFileDownload sample_services
      (start [Submit ''K7Q2M9'', Submit ''xyz123'', Submit ''/tmp/out''] sample_store)))
      = [Submit ''/tmp/out''] \<and>
   Submit ''/home/u/Downloads/report.pdf''
      \<notin> set (inputs (start [Submit ''K7Q2M9'', Submit ''xyz123'', Submit ''/tmp/out''] sample_store))"
  by (simp add: sample_download_run proj_defs) (simp add: start_def)

subsection \<open>Validation at the prompts of the download flow\<close>

lemma after_prompts_found:
  "getSecureFile sv (db w) key = Inr (Some file) \<Longrightarrow>
   handleFileDownload_after_prompts sv key pc w = (r, es, w') \<Longrightarrow>
   CallCompare pc (hashedPassCode file) \<in> set es"
  by (auto simp: handleFileDownload_after_prompts_def io_defs split: sum.splits option.splits if_splits)

text \<open>
  C10. The two prompts of the download flow are validated differently. The shared-key
  prompt rejects an empty line (it shows \<open>Must provide the shared key\<close> and asks
  again), so no run ever looks up the empty key. \<open>askPassword\<close> has no validation: it
  returns an empty line as it is, and the flow passes it to \<open>comparePasscode\<close>.
\<close>

theorem download_prompt_validation:
  fixes sv :: "('h, 'db) services"
  shows
  "(handleFileDownload sv w = (r, es, w') \<longrightarrow> CallGet (Str []) \<notin> set es) \<and>
   (text_loop validate_sharedKey (Submit [] # ins) :: prompt_value result \<times> 'h event list \<times> user_input list) =
      (case text_loop validate_sharedKey ins of
         (r', es', ins') \<Rightarrow> (r', Invalid ''Must provide the shared key'' # es', ins')) \<and>
   (askPassword message (u\<lparr>inputs := Submit [] # ins\<rparr>) :: string option result \<times> 'h event list \<times> 'db world) =
      (Value (Some []), [Ask message], u\<lparr>inputs := ins\<rparr>) \<and>
   (text_prompt ''Enter the shared key:'' validate_sharedKey v = (Value key, es1 :: 'h event list, v1) \<and>
    inputs v1 = Submit [] # rest \<and>
    getSecureFile sv (db v1) key = Inr (Some file) \<longrightarrow>
       CallCompare (Some []) (hashedPassCode file) \<in> set (events (handleFileDownload sv v)))"
proof (intro conjI impI)
  assume run: "handleFileDownload sv w = (r, es, w')"
  from handleFileDownload_runs[OF run]
  show "CallGet (Str []) \<notin> set es"
  proof
    assume "r = Blocked \<and> list_all is_prompt es \<and> db w' = db w"
    then show ?thesis using prompt_member by fastforce
  next
    assume "\<exists>ps key pc w2 es3. list_all is_prompt ps \<and> db w2 = db w \<and> es = ps @ es3 \<and>
             key \<noteq> Str [] \<and> handleFileDownload_after_prompts sv key pc w2 = (r, es3, w')"
    then obtain ps key pc w2 es3 where ps: "list_all is_prompt ps" and es: "es = ps @ es3"
      and k: "key \<noteq> Str []"
      and b: "handleFileDownload_after_prompts sv key pc w2 = (r, es3, w')" by blast
    have "CallGet (Str []) \<notin> set ps" using ps prompt_member by fastforce
    moreover have "CallGet (Str []) \<notin> set es3" using after_prompts_get[OF b] k by blast
    ultimately show ?thesis using es by simp
  qed
next
  show "(text_loop validate_sharedKey (Submit [] # ins) :: prompt_value result \<times> 'h event list \<times> user_input list) =
      (case text_loop validate_sharedKey ins of
         (r', es', ins') \<Rightarrow> (r', Invalid ''Must provide the shared key'' # es', ins'))"
    by (simp add: validate_sharedKey_def)
next
  show "(askPassword message (u\<lparr>inputs := Submit [] # ins\<rparr>) :: string option result \<times> 'h event list \<times> 'db world) =
      (Value (Some []), [Ask message], u\<lparr>inputs := ins\<rparr>)"
    by (simp add: askPassword_def)
next
  assume a: "text_prompt ''Enter the shared key:'' validate_sharedKey v = (Value key, es1, v1) \<and>
    inputs v1 = Submit [] # rest \<and> getSecureFile sv (db v1) key = Inr (Some file)"
  then have t: "text_prompt ''Enter the shared key:'' validate_sharedKey v = (Value key, es1, v1)" by simp
  have p: "askPassword ''Enter your passcode to get download link'' v1 =
             (Value (Some []), [Ask ''Enter your passcode to get download link''] :: 'h event list,
              v1\<lparr>inputs := rest\<rparr>)"
    using a by (simp add: askPassword_def)
  obtain r3 es3 w3 where b: "handleFileDownload_after_prompts sv key (Some []) (v1\<lparr>inputs := rest\<rparr>) = (r3, es3, w3)"
    by (metis prod_cases3)
  have g: "getSecureFile sv (db (v1\<lparr>inputs := rest\<rparr>)) key = Inr (Some file)" using a by simp
  have "CallCompare (Some []) (hashedPassCode file) \<in> set es3" using after_prompts_found[OF g b] .
  then show "CallCompare (Some []) (hashedPassCode file) \<in> set (events (handleFileDownload sv v))"
    by (simp add: handleFileDownload_answered[OF t p b] events_def)
qed

text \<open>
  A caller who first submits an empty key, then the stored key, then an empty passcode:
  the empty key is refused at the prompt, the empty passcode reaches \<open>comparePasscode\<close>.
\<close>

lemma sample_empty_answers_run:
  "handleFileDownload sample_services (start [Submit [], Submit ''K7Q2M9'', Submit []] sample_store) =
     (Value (),
      [Ask ''Enter the shared key:'', Invalid ''Must provide the shared key'',
       Ask ''Enter your passcode to get download link'',
       SpinStart ''Varifying passcode...'', CallGet (Str ''K7Q2M9''),
       CallCompare (Some []) (Digest ''s1'' ''321zyxs1''), SpinStop ''Wrong passcode!''],
      start [] sample_store)"
  by (simp add: flow_defs io_defs prompt_defs sample_defs)

theorem download_prompt_validation_witness:
  "CallGet (Str []) \<notin> set (events (handleFileDownload sample_services
       (start [Submit [], Submit ''K7Q2M9'', Submit []] sample_store))) \<and>
   inputs (start [Submit []] sample_store) = Submit [] # [] \<and>
   getSecureFile sample_services sample_store (Str ''K7Q2M9'') =
      Inr (Some \<lparr>hashedPassCode = Digest ''s1'' ''321zyxs1'', sharedKey = ''K7Q2M9'', fileId = ''f-1''\<rparr>) \<and>
   CallCompare (Some []) (Digest ''s1'' ''321zyxs1'')
     \<in> set (events (handleFileDownload sample_services
       (start [Submit [], Submit ''K7Q2M9'', Submit []] sample_store)))"
proof -
  have t: "text_prompt ''Enter the shared key:'' validate_sharedKey
             (start [Submit [], Submit ''K7Q2M9'', Submit []] sample_store) =
           (Value (Str ''K7Q2M9''),
            [Ask ''Enter the shared key:'', Invalid ''Must provide the shared key''] :: hashed_passcode event list,
            start [Submit []] sample_store)"
    by (simp add: prompt_defs start_def)
  have i: "inputs (start [Submit []] sample_store) = Submit [] # []" by (simp add: start_def)
  have g: "getSecureFile sample_services (db (start [Submit []] sample_store)) (Str ''K7Q2M9'') =
      Inr (Some \<lparr>hashedPassCode = Digest ''s1'' ''321zyxs1'', sharedKey = ''K7Q2M9'', fileId = ''f-1''\<rparr>)"
    by (simp add: sample_defs)
  note th = download_prompt_validation
    [of sample_services "start [Submit [], Submit ''K7Q2M9'', Submit []] sample_store" _ _ _ _ _ _
        "start [Submit [], Submit ''K7Q2M9'', Submit []] sample_store"]
  from th[THEN conjunct1, rule_format, OF sample_empty_answers_run]
       th[THEN conjunct2, THEN conjunct2, THEN conjunct2, rule_format, OF conjI, OF t conjI, OF i g]
       i g
  show ?thesis by (simp add: sample_empty_answers_run events_def start_db)
qed

subsection \<open>The upload flow\<close>


lemma getFilePathAndPassCode_shown:
  assumes "getFilePathAndPassCode sv w = (Value (fp, pc, k), es, w')"
  shows "shown es = es"
proof -
  obtain ps where ps: "list_all is_prompt ps"
    and es: "es = ps @ [SpinStart ''Generating a shared key...'', SpinStop (''Shared key: '' @ k)]"
    using getFilePathAndPassCode_value[OF assms] by blast
  show ?thesis using shown_prompts[OF ps] by (simp add: es shown_def)
qed

lemma key_before_upload:
  assumes "list_all is_prompt ps"
  shows "SpinStop s \<in> set (takeWhile (\<lambda>e. \<not> is_upload_call e) (ps @ SpinStart g # SpinStop s # tail))"
proof -
  have "\<forall>e\<in>set ps. \<not> is_upload_call e" using assms prompt_not_call by (auto simp: list_all_iff)
  then show ?thesis by (simp add: takeWhile_append2)
qed

lemma sample_upload_down_prompts:
  "getFilePathAndPassCode upload_down_services (start [Submit ''report.pdf'', Submit ''xyz123''] d) =
     (Value (Str ''report.pdf'', Some ''xyz123'', ''K7Q2M9''),
      [Ask ''Please enter the file path:'', Ask ''Set a passcode'',
       SpinStart ''Generating a shared key...'', SpinStop ''Shared key: K7Q2M9''],
      start [] d)"
  by (simp add: flow_defs io_defs prompt_defs upload_down_services_def sample_defs)

lemma sample_store_down_prompts:
  "getFilePathAndPassCode store_down_services (start [Submit ''report.pdf'', Submit ''xyz123''] d) =
     (Value (Str ''report.pdf'', Some ''xyz123'', ''K7Q2M9''),
      [Ask ''Please enter the file path:'', Ask ''Set a passcode'',
       SpinStart ''Generating a shared key...'', SpinStop ''Shared key: K7Q2M9''],
      start [] d)"
  by (simp add: flow_defs io_defs prompt_defs store_down_services_def sample_defs)

lemma sample_upload_down_run:
  "handleFileUpload upload_down_services (start [Submit ''report.pdf'', Submit ''xyz123''] Map.empty) =
     (Value (),
      [Ask ''Please enter the file path:'', Ask ''Set a passcode'',
       SpinStart ''Generating a shared key...'', SpinStop ''Shared key: K7Q2M9'',
       CallHash (Some ''xyz123''), SpinStart ''Processing file...'', CallUpload (Str ''report.pdf''),
       SpinStop ''File upload failed!'', ConsoleError ''Error uploading file:'' (JsError ''ETIMEDOUT'')],
      start [] Map.empty)"
  by (simp add: flow_defs io_defs prompt_defs upload_down_services_def sample_defs)

lemma sample_store_down_run:
  "handleFileUpload store_down_services (start [Submit ''report.pdf'', Submit ''xyz123''] Map.empty) =
     (Value (),
      [Ask ''Please enter the file path:'', Ask ''Set a passcode'',
       SpinStart ''Generating a shared key...'', SpinStop ''Shared key: K7Q2M9'',
       CallHash (Some ''xyz123''), SpinStart ''Processing file...'', CallUpload (Str ''report.pdf''),
       CallCreate (Digest ''s1'' ''321zyxs1'') ''K7Q2M9'' ''f-1'',
       SpinStop ''File upload failed!'', ConsoleError ''Error uploading file:'' (JsError ''ETIMEDOUT'')],
      start [] Map.empty)"
  by (simp add: flow_defs io_defs prompt_defs store_down_services_def sample_defs)

text \<open>
  C8. In every run of the upload flow that calls \<open>uploadFile\<close>, the spinner has shown
  \<open>Shared key: \<close> followed by the generated key before that call. In particular a run
  whose upload then fails has shown the key, and after it \<open>File upload failed!\<close>.
\<close>

theorem upload_key_shown_before_upload:
  fixes sv :: "('h, 'db) services"
  shows
  "(handleFileUpload sv w = (r, es, w') \<and> list_ex is_upload_call es \<longrightarrow>
      SpinStop (''Shared key: '' @ generateSharedKey sv)
        \<in> set (takeWhile (\<lambda>e. \<not> is_upload_call e) es)) \<and>
   (getFilePathAndPassCode sv v = (Value (fp, pc, k), es1 :: 'h event list, v1) \<and>
    hashPasscode sv pc = Inr h \<and> uploadFile sv fp = Inl e \<longrightarrow>
      k = generateSharedKey sv \<and>
      SpinStop (''Shared key: '' @ k) \<in> set (shown (events (handleFileUpload sv v))) \<and>
      SpinStop ''File upload failed!'' \<in> set (shown (events (handleFileUpload sv v))))"
proof (intro conjI impI)
  assume a: "handleFileUpload sv w = (r, es, w') \<and> list_ex is_upload_call es"
  then have run: "handleFileUpload sv w = (r, es, w')" and u: "list_ex is_upload_call es" by simp_all
  obtain r1 es0 w1 where g: "getFilePathAndPassCode sv w = (r1, es0 :: 'h event list, w1)"
    by (metis prod_cases3)
  show "SpinStop (''Shared key: '' @ generateSharedKey sv)
        \<in> set (takeWhile (\<lambda>e. \<not> is_upload_call e) es)"
  proof (cases "\<exists>x. r1 = Value x")
    case True
    then obtain fp' pc' k' where r1: "r1 = Value (fp', pc', k')" by (metis prod_cases3)
    obtain ps where k: "k' = generateSharedKey sv" and ps: "list_all is_prompt ps"
      and es0: "es0 = ps @ [SpinStart ''Generating a shared key...'', SpinStop (''Shared key: '' @ k')]"
      using getFilePathAndPassCode_value[OF g[unfolded r1]] by blast
    have "\<exists>tail. es = es0 @ tail"
    proof (cases "hashPasscode sv pc'")
      case (Inl e)
      then show ?thesis using run handleFileUpload_answered[OF g[unfolded r1]] by auto
    next
      case (Inr h)
      show ?thesis
      proof (cases "uploadFile sv fp'")
        case (Inl e)
        then show ?thesis using run handleFileUpload_answered[OF g[unfolded r1]] Inr by auto
      next
        case (Inr uploaded)
        obtain eo d where c: "createSecureFile sv (db w1) h k' (file_id uploaded) = (eo, d)"
          by (metis surj_pair)
        show ?thesis
          using run handleFileUpload_answered[OF g[unfolded r1]] \<open>hashPasscode sv pc' = Inr h\<close> Inr c
          by (cases eo) auto
      qed
    qed
    then obtain tail where "es = es0 @ tail" by blast
    then have es: "es = ps @ SpinStart ''Generating a shared key...''
                # SpinStop (''Shared key: '' @ generateSharedKey sv) # tail"
      by (simp add: es0 k)
    show ?thesis unfolding es by (rule key_before_upload[OF ps])
  next
    case False
    then have "events (handleFileUpload sv w) = es0" "list_all is_prompt es0"
      using handleFileUpload_unanswered[OF g] getFilePathAndPassCode_other[OF g] by auto
    then have "list_all is_prompt es" using run by (simp add: events_def)
    then have False using u prompt_not_call by (auto simp: list_all_iff list_ex_iff)
    then show ?thesis ..
  qed
next
  assume a: "getFilePathAndPassCode sv v = (Value (fp, pc, k), es1, v1) \<and>
    hashPasscode sv pc = Inr h \<and> uploadFile sv fp = Inl e"
  then have g: "getFilePathAndPassCode sv v = (Value (fp, pc, k), es1, v1)" by simp
  obtain ps where k: "k = generateSharedKey sv" and ps: "list_all is_prompt ps"
      and es1: "es1 = ps @ [SpinStart ''Generating a shared key...'', SpinStop (''Shared key: '' @ k)]"
    using getFilePathAndPassCode_value[OF g] by blast
  have run: "handleFileUpload sv v = (Value (), es1 @ [CallHash pc, SpinStart ''Processing file...'', CallUpload fp,
                        SpinStop ''File upload failed!'', ConsoleError ''Error uploading file:'' e], v1)"
    using handleFileUpload_answered[OF g] a by simp
  show "k = generateSharedKey sv" by (rule k)
  show "SpinStop (''Shared key: '' @ k) \<in> set (shown (events (handleFileUpload sv v)))"
    by (simp add: run events_def es1 shown_def)
  show "SpinStop ''File upload failed!'' \<in> set (shown (events (handleFileUpload sv v)))"
    by (simp add: run events_def shown_def)
qed

text \<open>The upload of scenario C, with the drive refusing it.\<close>

theorem upload_key_shown_before_upload_witness:
  "list_ex is_upload_call (events (handleFileUpload upload_down_services
       (start [Submit ''report.pdf'', Submit ''xyz123''] Map.empty))) \<and>
   hashPasscode upload_down_services (Some ''xyz123'') = Inr (Digest ''s1'' ''321zyxs1'') \<and>
   uploadFile upload_down_services (Str ''report.pdf'') = Inl (JsError ''ETIMEDOUT'') \<and>
   SpinStop ''Shared key: K7Q2M9''
     \<in> set (takeWhile (\<lambda>e. \<not> is_upload_call e) (events (handleFileUpload upload_down_services
       (start [Submit ''report.pdf'', Submit ''xyz123''] Map.empty)))) \<and>
   SpinStop ''File upload failed!''
     \<in> set (shown (events (handleFileUpload upload_down_services
       (start [Submit ''report.pdf'', Submit ''xyz123''] Map.empty))))"
proof -
  let ?w = "start [Submit ''report.pdf'', Submit ''xyz123''] (Map.empty :: record_store)"
  let ?es = "[Ask ''Please enter the file path:'', Ask ''Set a passcode'',
       SpinStart ''Generating a shared key...'', SpinStop ''Shared key: K7Q2M9'',
       CallHash (Some ''xyz123''), SpinStart ''Processing file...'', CallUpload (Str ''report.pdf''),
       SpinStop ''File upload failed!'', ConsoleError ''Error uploading file:'' (JsError ''ETIMEDOUT'')]
       :: hashed_passcode event list"
  have ev: "events (handleFileUpload upload_down_services ?w) = ?es"
    by (simp add: sample_upload_down_run events_def)
  have u: "list_ex is_upload_call ?es" by simp
  have h: "hashPasscode upload_down_services (Some ''xyz123'') = Inr (Digest ''s1'' ''321zyxs1'')"
    by (simp add: upload_down_services_def sample_defs)
  have f: "uploadFile upload_down_services (Str ''report.pdf'') = Inl (JsError ''ETIMEDOUT'')"
    by (simp add: upload_down_services_def sample_defs)
  have gk: "generateSharedKey upload_down_services = ''K7Q2M9''"
    by (simp add: upload_down_services_def sample_defs)
  note th = upload_key_shown_before_upload
    [of upload_down_services ?w "Value ()" ?es "start [] Map.empty" ?w
        "Str ''report.pdf''" "Some ''xyz123''" "''K7Q2M9''" _ "start [] Map.empty"
        "Digest ''s1'' ''321zyxs1''" "JsError ''ETIMEDOUT''"]
  have a: "SpinStop (''Shared key: '' @ generateSharedKey upload_down_services)
        \<in> set (takeWhile (\<lambda>e. \<not> is_upload_call e) ?es)"
    using th sample_upload_down_run u by blast
  have b: "SpinStop ''File upload failed!'' \<in> set (shown (events (handleFileUpload upload_down_services ?w)))"
    using th sample_upload_down_prompts h f by blast
  show ?thesis using a b u h f unfolding ev gk by simp
qed

text \<open>
  C2. When the remote upload fails after the key was generated and the passcode hashed,
  the flow returns without calling \<open>createSecureFile\<close> and leaves the record store as
  it was; a key that was in no record when it was generated is still in none, so a
  lookup of it afterwards finds nothing.
\<close>

theorem upload_failure_persists_nothing:
  fixes sv :: "('h, 'db) services"
  assumes "getFilePathAndPassCode sv w = (Value (fp, pc, k), es1 :: 'h event list, w1)"
      and "hashPasscode sv pc = Inr h"
      and "uploadFile sv fp = Inl e"
      and "getSecureFile sv (db w) (Str k) = Inr None"
  shows "outcome (handleFileUpload sv w) = Value () \<and>
         \<not> list_ex is_create_call (events (handleFileUpload sv w)) \<and>
         db (final (handleFileUpload sv w)) = db w \<and>
         getSecureFile sv (db (final (handleFileUpload sv w))) (Str k) = Inr None"
proof -
  obtain ps where d: "db w1 = db w" and ps: "list_all is_prompt ps"
      and es1: "es1 = ps @ [SpinStart ''Generating a shared key...'', SpinStop (''Shared key: '' @ k)]"
    using getFilePathAndPassCode_value[OF assms(1)] by blast
  have run: "handleFileUpload sv w = (Value (), es1 @ [CallHash pc, SpinStart ''Processing file...'', CallUpload fp,
                        SpinStop ''File upload failed!'', ConsoleError ''Error uploading file:'' e], w1)"
    using handleFileUpload_answered[OF assms(1)] assms(2,3) by simp
  have "\<forall>x\<in>set ps. \<not> is_create_call x" using ps prompt_not_call by (auto simp: list_all_iff)
  then have "\<not> list_ex is_create_call (events (handleFileUpload sv w))"
    by (simp add: run events_def es1 list_ex_iff)
  then show ?thesis using d assms(4) by (simp add: run outcome_def final_def)
qed

text \<open>Scenario C: the drive refuses the upload, the store stays empty.\<close>

theorem upload_failure_persists_nothing_witness:
  "hashPasscode upload_down_services (Some ''xyz123'') = Inr (Digest ''s1'' ''321zyxs1'') \<and>
   uploadFile upload_down_services (Str ''report.pdf'') = Inl (JsError ''ETIMEDOUT'') \<and>
   getSecureFile upload_down_services Map.empty (Str ''K7Q2M9'') = Inr None \<and>
   outcome (handleFileUpload upload_down_services
      (start [Submit ''report.pdf'', Submit ''xyz123''] Map.empty)) = Value () \<and>
   getSecureFile upload_down_services
     (db (final (handleFileUpload upload_down_services
        (start [Submit ''report.pdf'', Submit ''xyz123''] Map.empty)))) (Str ''K7Q2M9'') = Inr None"
proof -
  have h: "hashPasscode upload_down_services (Some ''xyz123'') = Inr (Digest ''s1'' ''321zyxs1'')"
    by (simp add: upload_down_services_def sample_defs)
  have f: "uploadFile upload_down_services (Str ''report.pdf'') = Inl (JsError ''ETIMEDOUT'')"
    by (simp add: upload_down_services_def sample_defs)
  have g: "getSecureFile upload_down_services
             (db (start [Submit ''report.pdf'', Submit ''xyz123''] Map.empty)) (Str ''K7Q2M9'') = Inr None"
    by (simp add: upload_down_services_def sample_defs)
  have g': "getSecureFile upload_down_services Map.empty (Str ''K7Q2M9'') = Inr None"
    using g by (simp add: start_db)
  note th = upload_failure_persists_nothing [OF sample_upload_down_prompts h f g]
  show ?thesis using th h f g' by blast
qed

text \<open>
  C3, as amended. When the remote upload succeeds but the record write fails, the upload
  flow reports it the way it reports a failed upload: it returns normally, the spinner
  stops with \<open>File upload failed!\<close> and the caught error is printed after
  \<open>Error uploading file:\<close>. The two reports differ in the printed error only.
\<close>

theorem upload_failures_reported_alike:
  fixes sv :: "('h, 'db) services"
  assumes "getFilePathAndPassCode sv w = (Value (fp, pc, k), es1 :: 'h event list, w1)"
      and "hashPasscode sv pc = Inr h"
      and "uploadFile sv fp = Inl e
           \<or> (\<exists>uploaded. uploadFile sv fp = Inr uploaded \<and>
                 fst (createSecureFile sv (db w1) h k (file_id uploaded)) = Some e)"
  shows "outcome (handleFileUpload sv w) = Value () \<and>
         shown (events (handleFileUpload sv w)) =
           es1 @ [SpinStart ''Processing file...'', SpinStop ''File upload failed!'',
                  ConsoleError ''Error uploading file:'' e]"
  using assms(3)
proof (elim disjE exE conjE)
  assume "uploadFile sv fp = Inl e"
  then have run: "handleFileUpload sv w = (Value (), es1 @ [CallHash pc, SpinStart ''Processing file...'', CallUpload fp,
                        SpinStop ''File upload failed!'', ConsoleError ''Error uploading file:'' e], w1)"
    using handleFileUpload_answered[OF assms(1)] assms(2) by simp
  show ?thesis
    using getFilePathAndPassCode_shown[OF assms(1)]
    by (simp add: run outcome_def events_def shown_def)
next
  fix uploaded
  assume u: "uploadFile sv fp = Inr uploaded"
     and c: "fst (createSecureFile sv (db w1) h k (file_id uploaded)) = Some e"
  obtain d where c': "createSecureFile sv (db w1) h k (file_id uploaded) = (Some e, d)"
    using c by (metis fst_conv surj_pair)
  have run: "handleFileUpload sv w = (Value (), es1 @ [CallHash pc, SpinStart ''Processing file...'', CallUpload fp,
                        CallCreate h k (file_id uploaded), SpinStop ''File upload failed!'',
                        ConsoleError ''Error uploading file:'' e], w1\<lparr>db := d\<rparr>)"
    using handleFileUpload_answered[OF assms(1)] assms(2) u c' by simp
  show ?thesis
    using getFilePathAndPassCode_shown[OF assms(1)]
    by (simp add: run outcome_def events_def shown_def)
qed

text \<open>The sample upload with the store refusing the write, and with the drive refusing the upload.\<close>

theorem upload_failures_reported_alike_witness:
  "uploadFile store_down_services (Str ''report.pdf'') = Inr (DriveFile ''f-1'') \<and>
   fst (createSecureFile store_down_services Map.empty (Digest ''s1'' ''321zyxs1'') ''K7Q2M9'' ''f-1'')
     = Some (JsError ''ETIMEDOUT'') \<and>
   shown (events (handleFileUpload store_down_services
      (start [Submit ''report.pdf'', Submit ''xyz123''] Map.empty))) =
     [Ask ''Please enter the file path:'', Ask ''Set a passcode'',
      SpinStart ''Generating a shared key...'', SpinStop ''Shared key: K7Q2M9'',
      SpinStart ''Processing file...'', SpinStop ''File upload failed!'',
      ConsoleError ''Error uploading file:'' (JsError ''ETIMEDOUT'')] \<and>
   uploadFile upload_down_services (Str ''report.pdf'') = Inl (JsError ''ETIMEDOUT'') \<and>
   shown (events (handleFileUpload upload_down_services
      (start [Submit ''report.pdf'', Submit ''xyz123''] Map.empty))) =
     [Ask ''Please enter the file path:'', Ask ''Set a passcode'',
      SpinStart ''Generating a shared key...'', SpinStop ''Shared key: K7Q2M9'',
      SpinStart ''Processing file...'', SpinStop ''File upload failed!'',
      ConsoleError ''Error uploading file:'' (JsError ''ETIMEDOUT'')]"
proof -
  have h: "hashPasscode store_down_services (Some ''xyz123'') = Inr (Digest ''s1'' ''321zyxs1'')"
    by (simp add: store_down_services_def sample_defs)
  have u: "uploadFile store_down_services (Str ''report.pdf'') = Inr (DriveFile ''f-1'')"
    by (simp add: store_down_services_def sample_defs)
  have c: "fst (createSecureFile store_down_services Map.empty (Digest ''s1'' ''321zyxs1'') ''K7Q2M9'' ''f-1'')
     = Some (JsError ''ETIMEDOUT'')"
    by (simp add: store_down_services_def sample_defs)
  have uc: "uploadFile store_down_services (Str ''report.pdf'') = Inl (JsError ''ETIMEDOUT'')
           \<or> (\<exists>uploaded. uploadFile store_down_services (Str ''report.pdf'') = Inr uploaded \<and>
                 fst (createSecureFile store_down_services (db (start [] Map.empty))
                        (Digest ''s1'' ''321zyxs1'') ''K7Q2M9'' (file_id uploaded)) = Some (JsError ''ETIMEDOUT''))"
    using u c by (simp add: start_db)
  have h2: "hashPasscode upload_down_services (Some ''xyz123'') = Inr (Digest ''s1'' ''321zyxs1'')"
    by (simp add: upload_down_services_def sample_defs)
  have f2: "uploadFile upload_down_services (Str ''report.pdf'') = Inl (JsError ''ETIMEDOUT'')"
    by (simp add: upload_down_services_def sample_defs)
  note a = upload_failures_reported_alike [OF sample_store_down_prompts h uc]
  note b = upload_failures_reported_alike [OF sample_upload_down_prompts h2 disjI1, OF f2]
  show ?thesis using a b u c f2 by simp
qed

text \<open>
  C3 as stated (a failed record write is surfaced as a condition of its own, different
  from the outcome of a failed upload) fails: with the same error thrown, the caller of a
  run whose upload failed and the caller of a run whose upload succeeded and whose record
  write failed see exactly the same, although only the second run left a file behind.
\<close>

theorem upload_failures_counterexample:
  "CallCreate (Digest ''s1'' ''321zyxs1'') ''K7Q2M9'' ''f-1''
     \<in> set (events (handleFileUpload store_down_services
          (start [Submit ''report.pdf'', Submit ''xyz123''] Map.empty))) \<and>
   \<not> list_ex is_create_call (events (handleFileUpload upload_down_services
          (start [Submit ''report.pdf'', Submit ''xyz123''] Map.empty))) \<and>
   outcome (handleFileUpload store_down_services
          (start [Submit ''report.pdf'', Submit ''xyz123''] Map.empty)) =
   outcome (handleFileUpload upload_down_services
          (start [Submit ''report.pdf'', Submit ''xyz123''] Map.empty)) \<and>
   shown (events (handleFileUpload store_down_services
          (start [Submit ''report.pdf'', Submit ''xyz123''] Map.empty))) =
   shown (events (handleFileUpload upload_down_services
          (start [Submit ''report.pdf'', Submit ''xyz123''] Map.empty)))"
  by (simp add: sample_store_down_run sample_upload_down_run proj_defs shown_def)

subsection \<open>The hasher\<close>

lemma sample_empty_passcode_prompts:
  "getFilePathAndPassCode sample_services (start [Submit ''report.pdf'', Submit []] d) =
     (Value (Str ''report.pdf'', Some [], ''K7Q2M9''),
      [Ask ''Please enter the file path:'', Ask ''Set a passcode'',
       SpinStart ''Generating a shared key...'', SpinStop ''Shared key: K7Q2M9''],
      start [] d)"
  by (simp add: flow_defs io_defs prompt_defs sample_defs)

text \<open>
  C5. Hashing fails with InvalidInput exactly when the passcode is empty, and gives a
  digest otherwise. In the upload flow an empty passcode passes the prompt, reaches the
  hash step and is rejected there: the flow ends with InvalidInput thrown, before any
  upload and with the record store untouched.
\<close>

theorem hash_rejects_empty_passcode:
  fixes sv :: "(hashed_passcode, 'db) services"
  shows
  "(PasscodeHasher_hash kdf fresh p = Inl InvalidInput \<longleftrightarrow> p = []) \<and>
   (p \<noteq> [] \<longrightarrow> PasscodeHasher_hash kdf fresh p = Inr (Digest fresh (kdf fresh p))) \<and>
   (getFilePathAndPassCode sv w = (Value (fp, Some [], k), es1, w1) \<and>
    hashPasscode sv = spec_hashPasscode kdf fresh \<longrightarrow>
      handleFileUpload sv w = (Threw InvalidInput, es1 @ [CallHash (Some [])], w1) \<and>
      db w1 = db w)"
proof (intro conjI impI)
  show "(PasscodeHasher_hash kdf fresh p = Inl InvalidInput) = (p = [])"
    by (simp add: PasscodeHasher_hash_def)
next
  assume "p \<noteq> []"
  then show "PasscodeHasher_hash kdf fresh p = Inr (Digest fresh (kdf fresh p))"
    by (simp add: PasscodeHasher_hash_def)
next
  assume a: "getFilePathAndPassCode sv w = (Value (fp, Some [], k), es1, w1) \<and>
    hashPasscode sv = spec_hashPasscode kdf fresh"
  then have g: "getFilePathAndPassCode sv w = (Value (fp, Some [], k), es1, w1)" by simp
  have h: "hashPasscode sv (Some []) = Inl InvalidInput"
    using a by (simp add: spec_hashPasscode_def PasscodeHasher_hash_def)
  show "handleFileUpload sv w = (Threw InvalidInput, es1 @ [CallHash (Some [])], w1)"
    using handleFileUpload_answered[OF g] h by simp
next
  assume a: "getFilePathAndPassCode sv w = (Value (fp, Some [], k), es1, w1) \<and>
    hashPasscode sv = spec_hashPasscode kdf fresh"
  then show "db w1 = db w" using getFilePathAndPassCode_value by blast
qed

text \<open>An upload of \<open>report.pdf\<close> with an empty passcode, and the hash of \<open>xyz123\<close>.\<close>

theorem hash_rejects_empty_passcode_witness:
  "''xyz123'' \<noteq> [] \<and>
   PasscodeHasher_hash toy_kdf ''s1'' ''xyz123'' = Inr (Digest ''s1'' ''321zyxs1'') \<and>
   hashPasscode sample_services = spec_hashPasscode toy_kdf ''s1'' \<and>
   handleFileUpload sample_services (start [Submit ''report.pdf'', Submit []] Map.empty) =
     (Threw InvalidInput,
      [Ask ''Please enter the file path:'', Ask ''Set a passcode'',
       SpinStart ''Generating a shared key...'', SpinStop ''Shared key: K7Q2M9'',
       CallHash (Some [])],
      start [] Map.empty)"
proof -
  have n: "''xyz123'' \<noteq> []" by simp
  have s: "hashPasscode sample_services = spec_hashPasscode toy_kdf ''s1''"
    by (simp add: sample_services_def)
  note th = hash_rejects_empty_passcode
    [of toy_kdf "''s1''" "''xyz123''" sample_services "start [Submit ''report.pdf'', Submit []] Map.empty"
        "Str ''report.pdf''" "''K7Q2M9''" _ "start [] Map.empty"]
  have a: "PasscodeHasher_hash toy_kdf ''s1'' ''xyz123'' = Inr (Digest ''s1'' (toy_kdf ''s1'' ''xyz123''))"
    using th n by blast
  have b: "handleFileUpload sample_services (start [Submit ''report.pdf'', Submit []] Map.empty) =
     (Threw InvalidInput,
      [Ask ''Please enter the file path:'', Ask ''Set a passcode'',
       SpinStart ''Generating a shared key...'', SpinStop ''Shared key: K7Q2M9''] @ [CallHash (Some [])],
      start [] Map.empty)"
    using th sample_empty_passcode_prompts s by blast
  show ?thesis using a b n s by (simp add: toy_kdf_def)
qed

text \<open>
  C6. Verification of a passcode against a well-formed digest never fails: it returns a
  boolean, and \<open>false\<close> whenever the passcode does not hash to the digest. The download
  flow takes that \<open>false\<close> as a normal result: it stops the spinner with
  \<open>Wrong passcode!\<close> and returns, nothing thrown.
\<close>

theorem verify_mismatch_is_false:
  fixes sv :: "(hashed_passcode, 'db) services"
  shows
  "(well_formed hashed \<longrightarrow>
      PasscodeHasher_verify kdf p hashed = Inr (kdf (salt hashed) p = digest hashed)) \<and>
   (well_formed hashed \<and> kdf (salt hashed) p \<noteq> digest hashed \<longrightarrow>
      PasscodeHasher_verify kdf p hashed = Inr False) \<and>
   (text_prompt ''Enter the shared key:'' validate_sharedKey w = (Value key, es1, w1) \<and>
    askPassword ''Enter your passcode to get download link'' w1 = (Value (Some q), es2, w2) \<and>
    getSecureFile sv (db w2) key = Inr (Some found) \<and>
    comparePasscode sv = spec_comparePasscode kdf \<and>
    well_formed (hashedPassCode found) \<and>
    kdf (salt (hashedPassCode found)) q \<noteq> digest (hashedPassCode found) \<longrightarrow>
      handleFileDownload sv w =
        (Value (), es1 @ es2 @ [SpinStart ''Varifying passcode...'', CallGet key,
            CallCompare (Some q) (hashedPassCode found), SpinStop ''Wrong passcode!''], w2))"
proof (intro conjI impI)
  assume "well_formed hashed"
  then show "PasscodeHasher_verify kdf p hashed = Inr (kdf (salt hashed) p = digest hashed)"
    by (cases hashed) (simp_all add: PasscodeHasher_verify_def)
next
  assume "well_formed hashed \<and> kdf (salt hashed) p \<noteq> digest hashed"
  then show "PasscodeHasher_verify kdf p hashed = Inr False"
    by (cases hashed) (simp_all add: PasscodeHasher_verify_def)
next
  assume a: "text_prompt ''Enter the shared key:'' validate_sharedKey w = (Value key, es1, w1) \<and>
    askPassword ''Enter your passcode to get download link'' w1 = (Value (Some q), es2, w2) \<and>
    getSecureFile sv (db w2) key = Inr (Some found) \<and>
    comparePasscode sv = spec_comparePasscode kdf \<and>
    well_formed (hashedPassCode found) \<and>
    kdf (salt (hashedPassCode found)) q \<noteq> digest (hashedPassCode found)"
  then have t: "text_prompt ''Enter the shared key:'' validate_sharedKey w = (Value key, es1, w1)"
    and p: "askPassword ''Enter your passcode to get download link'' w1 = (Value (Some q), es2, w2)"
    and g: "getSecureFile sv (db w2) key = Inr (Some found)" by simp_all
  have c: "comparePasscode sv (Some q) (hashedPassCode found) = Inr False"
    using a by (cases "hashedPassCode found")
               (simp_all add: spec_comparePasscode_def PasscodeHasher_verify_def)
  show "handleFileDownload sv w =
        (Value (), es1 @ es2 @ [SpinStart ''Varifying passcode...'', CallGet key,
            CallCompare (Some q) (hashedPassCode found), SpinStop ''Wrong passcode!''], w2)"
    using t p after_prompts_mismatch[OF g c] by (rule handleFileDownload_answered)
qed

text \<open>Scenario B: \<open>wrongpass\<close> against the digest of \<open>xyz123\<close>.\<close>

theorem verify_mismatch_is_false_witness:
  "well_formed (Digest ''s1'' ''321zyxs1'') \<and>
   toy_kdf ''s1'' ''wrongpass'' \<noteq> ''321zyxs1'' \<and>
   PasscodeHasher_verify toy_kdf ''wrongpass'' (Digest ''s1'' ''321zyxs1'') = Inr False \<and>
   comparePasscode sample_services = spec_comparePasscode toy_kdf \<and>
   handleFileDownload sample_services (start [Submit ''K7Q2M9'', Submit ''wrongpass''] sample_store) =
     (Value (),
      [Ask ''Enter the shared key:'', Ask ''Enter your passcode to get download link'',
       SpinStart ''Varifying passcode...'', CallGet (Str ''K7Q2M9''),
       CallCompare (Some ''wrongpass'') (Digest ''s1'' ''321zyxs1''), SpinStop ''Wrong passcode!''],
      start [] sample_store)"
proof -
  let ?found = "\<lparr>hashedPassCode = Digest ''s1'' ''321zyxs1'', sharedKey = ''K7Q2M9'', fileId = ''f-1''\<rparr>"
  have wf: "well_formed (Digest ''s1'' ''321zyxs1'')" by simp
  have ne: "toy_kdf ''s1'' ''wrongpass'' \<noteq> ''321zyxs1''" by (simp add: toy_kdf_def)
  have s: "comparePasscode sample_services = spec_comparePasscode toy_kdf"
    by (simp add: sample_services_def)
  have g: "getSecureFile sample_services (db (start [] sample_store)) (Str ''K7Q2M9'') = Inr (Some ?found)"
    by (simp add: sample_defs)
  have wf': "well_formed (hashedPassCode ?found)" by simp
  have ne': "toy_kdf (salt (hashedPassCode ?found)) ''wrongpass'' \<noteq> digest (hashedPassCode ?found)"
    by (simp add: toy_kdf_def)
  have t: "text_prompt ''Enter the shared key:'' validate_sharedKey
             (start [Submit ''K7Q2M9'', Submit ''wrongpass''] sample_store) =
           (Value (Str ''K7Q2M9''), [Ask ''Enter the shared key:''] :: hashed_passcode event list,
            start [Submit ''wrongpass''] sample_store)"
    by (rule sample_key_prompt)
  have p: "askPassword ''Enter your passcode to get download link'' (start [Submit ''wrongpass''] sample_store) =
           (Value (Some ''wrongpass''), [Ask ''Enter your passcode to get download link''] :: hashed_passcode event list,
            start [] sample_store)"
    by (rule sample_passcode_prompt)
  note th = verify_mismatch_is_false
    [of "Digest ''s1'' ''321zyxs1''" toy_kdf "''wrongpass''"
        "start [Submit ''K7Q2M9'', Submit ''wrongpass''] sample_store" "Str ''K7Q2M9''"
        "[Ask ''Enter the shared key:'']" "start [Submit ''wrongpass''] sample_store"
        "''wrongpass''" "[Ask ''Enter your passcode to get download link'']" "start [] sample_store"
        sample_services ?found]
  have a: "PasscodeHasher_verify toy_kdf ''wrongpass'' (Digest ''s1'' ''321zyxs1'') = Inr False"
    using th wf ne by simp
  have b: "handleFileDownload sample_services (start [Submit ''K7Q2M9'', Submit ''wrongpass''] sample_store) =
     (Value (),
      [Ask ''Enter the shared key:''] @ [Ask ''Enter your passcode to get download link''] @
      [SpinStart ''Varifying passcode...'', CallGet (Str ''K7Q2M9''),
       CallCompare (Some ''wrongpass'') (hashedPassCode ?found), SpinStop ''Wrong passcode!''],
      start [] sample_store)"
    using th t p g s wf' ne' by blast
  show ?thesis using a b wf ne s by simp
qed

end
